theory Spec2Isabelle
  imports Main "HOL-Library.AList"
begin

section \<open>The Schools.by scraping client (schools\_api.py)\<close>

text \<open>
  A shallow embedding of the class \<open>SchoolsAPI\<close>. The libraries the class calls are
  not part of the repository and enter the model as follows.
  \<^item> Python strings are \<open>string\<close>; \<open>str.lower\<close> changes the letters A to Z only and
    \<open>str.strip\<close> removes the ASCII white space of Python, so the model speaks about
    ASCII text.
  \<^item> A document parsed by BeautifulSoup is a tree of tags and text nodes; the
    parser itself (\<open>BeautifulSoup(html, 'html.parser')\<close>) is a parameter.
  \<^item> \<open>json.loads\<close>, \<open>urljoin\<close> and the HTTP transport of httpx are parameters.
  \<^item> An exception is a value of type \<open>exn\<close>; a function that may raise returns
    \<open>exn + 'a\<close>, with \<open>Inl\<close> for the exception.
  \<^item> \<open>print\<close> calls and the unused local \<open>combined_headers\<close> are left out.
\<close>

subsection \<open>Python strings\<close>

definition lower_char :: "char \<Rightarrow> char" where
  "lower_char c =
     (case map_of (zip ''ABCDEFGHIJKLMNOPQRSTUVWXYZ'' ''abcdefghijklmnopqrstuvwxyz'') c of
        None \<Rightarrow> c | Some l \<Rightarrow> l)"

definition lower :: "string \<Rightarrow> string" where
  "lower s = map lower_char s"

text \<open>\<open>s.startswith(p)\<close>.\<close>

fun startswith :: "string \<Rightarrow> string \<Rightarrow> bool" where
  "startswith s [] = True"
| "startswith [] (p # ps) = False"
| "startswith (c # cs) (p # ps) = (c = p \<and> startswith cs ps)"

text \<open>\<open>sub in s\<close> for two strings.\<close>

fun str_in :: "string \<Rightarrow> string \<Rightarrow> bool" where
  "str_in sub [] = (sub = [])"
| "str_in sub (c # cs) = (startswith (c # cs) sub \<or> str_in sub cs)"

text \<open>The characters \<open>str.strip()\<close> and the regular expression class \<open>\s\<close> remove
  or match, among the ASCII characters.\<close>

definition is_space :: "char \<Rightarrow> bool" where
  "is_space c =
     (c \<in> set [CHR 0x09, CHR 0x0A, CHR 0x0B, CHR 0x0C, CHR 0x0D,
                CHR 0x1C, CHR 0x1D, CHR 0x1E, CHR 0x1F, CHR '' ''])"

definition strip :: "string \<Rightarrow> string" where
  "strip s = rev (dropWhile is_space (rev (dropWhile is_space s)))"

text \<open>\<open>s.split(sep)\<close> for a separator of one character.\<close>

fun split_on :: "char \<Rightarrow> string \<Rightarrow> string list" where
  "split_on sep [] = [[]]"
| "split_on sep (c # cs) =
     (if c = sep then [] # split_on sep cs
      else (case split_on sep cs of [] \<Rightarrow> [[c]] | l # ls \<Rightarrow> (c # l) # ls))"

text \<open>\<open>s.find(c)\<close> and \<open>s.rfind(c) + 1\<close> for a character that occurs in \<open>s\<close>, and
  the slice \<open>s[i:j]\<close> for indices that are not negative.\<close>

definition find_char :: "char \<Rightarrow> string \<Rightarrow> nat" where
  "find_char c s = length (takeWhile (\<lambda>x. x \<noteq> c) s)"

definition rfind_char_end :: "char \<Rightarrow> string \<Rightarrow> nat" where
  "rfind_char_end c s = length s - length (takeWhile (\<lambda>x. x \<noteq> c) (rev s))"

definition slice :: "string \<Rightarrow> nat \<Rightarrow> nat \<Rightarrow> string" where
  "slice s i j = take (j - i) (drop i s)"

text \<open>\<open>sep.join(xs)\<close>.\<close>

fun join :: "string \<Rightarrow> string list \<Rightarrow> string" where
  "join sep [] = []"
| "join sep [x] = x"
| "join sep (x # y # ys) = x @ sep @ join sep (y # ys)"

text \<open>\<open>str(n)\<close> for an integer.\<close>

function str_of_nat :: "nat \<Rightarrow> string" where
  "str_of_nat n =
     (if n < 10 then [''0123456789'' ! n]
      else str_of_nat (n div 10) @ [''0123456789'' ! (n mod 10)])"
  by pat_completeness auto
termination
  by (relation "measure id") auto

declare str_of_nat.simps [simp del]

definition str_of_int :: "int \<Rightarrow> string" where
  "str_of_int i = (if i < 0 then CHR ''-'' # str_of_nat (nat (- i)) else str_of_nat (nat i))"

text \<open>Truth value of \<open>None\<close> or a string, and \<open>str\<close> of it as an f-string prints it.\<close>

fun truthy_str :: "string option \<Rightarrow> bool" where
  "truthy_str None = False"
| "truthy_str (Some s) = (s \<noteq> [])"

fun str_of_opt :: "string option \<Rightarrow> string" where
  "str_of_opt None = ''None''"
| "str_of_opt (Some s) = s"

subsection \<open>Exceptions\<close>

datatype exn =
    SchoolsAPIError string
  | RequestError string
  | RuntimeError string
  | TypeError string
  | AttributeError string
  | ValueError string
  | KeyError string

fun str_of_exn :: "exn \<Rightarrow> string" where
  "str_of_exn (SchoolsAPIError m) = m"
| "str_of_exn (RequestError m) = m"
| "str_of_exn (RuntimeError m) = m"
| "str_of_exn (TypeError m) = m"
| "str_of_exn (AttributeError m) = m"
| "str_of_exn (ValueError m) = m"
| "str_of_exn (KeyError m) = m"

subsection \<open>Parsed documents\<close>

text \<open>
  A tag has a name, its attribute dictionary and its children. BeautifulSoup gives
  every string of a document a class when it parses, and \<open>get_text\<close> tells the classes
  apart:
  \<^item> \<open>Text\<close> is a string whose class follows from the tags around it: inside a
    \<open>script\<close>, \<open>style\<close>, \<open>template\<close>, \<open>rt\<close> or \<open>rp\<close> tag it has the class of the innermost
    such tag (Script, Stylesheet, TemplateString, RubyTextString,
    RubyParenthesisString), elsewhere it is a NavigableString or a CData section;
  \<^item> \<open>Special\<close> is a string given with its class: a comment (which also stands for
    declarations, doctypes and processing instructions), or a string of a tag that is
    looked at without the \<open>template\<close>, \<open>rt\<close> or \<open>rp\<close> tag around it.
\<close>

datatype string_class =
    NavigableString
  | Script
  | Stylesheet
  | TemplateString
  | RubyTextString
  | RubyParenthesisString
  | Comment

datatype node =
    Tag string "(string \<times> string) list" "node list"
  | Text string
  | Special string_class string

type_synonym soup = "node list"

text \<open>\<open>tag.get(key)\<close>, \<open>tag.get(key, default)\<close> and \<open>tag.name\<close>.\<close>

fun attr_get :: "node \<Rightarrow> string \<Rightarrow> string option" where
  "attr_get (Tag n attrs cs) k = map_of attrs k"
| "attr_get (Text s) k = None"
| "attr_get (Special c s) k = None"

definition attr_get_default :: "node \<Rightarrow> string \<Rightarrow> string \<Rightarrow> string" where
  "attr_get_default t k d = (case attr_get t k of None \<Rightarrow> d | Some v \<Rightarrow> v)"

fun tag_name :: "node \<Rightarrow> string" where
  "tag_name (Tag n attrs cs) = n"
| "tag_name (Text s) = []"
| "tag_name (Special c s) = []"

fun contents :: "node \<Rightarrow> node list" where
  "contents (Tag n attrs cs) = cs"
| "contents (Text s) = []"
| "contents (Special c s) = []"

text \<open>All tags below a list of nodes, in document order: what \<open>find_all\<close> walks.\<close>

fun tags_of :: "node \<Rightarrow> node list" and tags_of_list :: "node list \<Rightarrow> node list" where
  "tags_of (Text s) = []"
| "tags_of (Special c s) = []"
| "tags_of (Tag n attrs cs) = Tag n attrs cs # tags_of_list cs"
| "tags_of_list [] = []"
| "tags_of_list (c # cs) = tags_of c @ tags_of_list cs"

text \<open>The class of the strings that a tag of a given name holds, which is also the
  class its \<open>get_text\<close> is interested in: a \<open>div\<close> or an \<open>a\<close> holds and reads strings of
  class NavigableString.\<close>

definition interesting_string_types :: "string \<Rightarrow> string_class" where
  "interesting_string_types n =
     (case map_of [(''rt'', RubyTextString), (''rp'', RubyParenthesisString),
                   (''style'', Stylesheet), (''script'', Script),
                   (''template'', TemplateString)] n of
        None \<Rightarrow> NavigableString
      | Some c \<Rightarrow> c)"

definition is_string_container :: "string \<Rightarrow> bool" where
  "is_string_container n = (n \<in> set [''rt'', ''rp'', ''style'', ''script'', ''template''])"

text \<open>The strings among and below the nodes \<open>cs\<close>, in document order, each with its
  class; \<open>k\<close> is the class of a \<open>Text\<close> at this place.\<close>

fun strings_in :: "string_class \<Rightarrow> node list \<Rightarrow> (string_class \<times> string) list" where
  "strings_in k [] = []"
| "strings_in k (Text s # cs) = (k, s) # strings_in k cs"
| "strings_in k (Special c s # cs) = (c, s) # strings_in k cs"
| "strings_in k (Tag m attrs ds # cs) =
     strings_in (if is_string_container m then interesting_string_types m else k) ds
       @ strings_in k cs"

text \<open>\<open>tag.get_text()\<close>: the strings below the tag that have the class the tag is
  interested in, concatenated. The text of a \<open>div\<close>, a \<open>p\<close> or an \<open>a\<close> leaves out the
  scripts, style sheets, templates and comments inside it.\<close>

fun get_text :: "node \<Rightarrow> string" where
  "get_text (Tag n attrs cs) =
     concat (map snd (filter (\<lambda>(c, s). c = interesting_string_types n)
                        (strings_in (interesting_string_types n) cs)))"
| "get_text (Text s) = s"
| "get_text (Special c s) = s"

text \<open>\<open>tag.string\<close>: defined when the tag has exactly one child.\<close>

fun node_string :: "node \<Rightarrow> string option" where
  "node_string (Text s) = Some s"
| "node_string (Special c s) = Some s"
| "node_string (Tag n attrs [c]) = node_string c"
| "node_string (Tag n attrs cs) = None"

text \<open>\<open>find_all(name)\<close>, \<open>find_all(name, {key: value})\<close>, \<open>find_all(name, key=True)\<close> and
  \<open>find\<close>, on the nodes \<open>ns\<close> under the soup or under a tag.\<close>

definition find_all :: "node list \<Rightarrow> string \<Rightarrow> node list" where
  "find_all ns name = filter (\<lambda>t. tag_name t = name) (tags_of_list ns)"

definition find_all_attr :: "node list \<Rightarrow> string \<Rightarrow> string \<Rightarrow> string \<Rightarrow> node list" where
  "find_all_attr ns name k v =
     filter (\<lambda>t. tag_name t = name \<and> attr_get t k = Some v) (tags_of_list ns)"

definition find_all_has :: "node list \<Rightarrow> string \<Rightarrow> string \<Rightarrow> node list" where
  "find_all_has ns name k =
     filter (\<lambda>t. tag_name t = name \<and> attr_get t k \<noteq> None) (tags_of_list ns)"

definition find_first :: "node list \<Rightarrow> string \<Rightarrow> node option" where
  "find_first ns name = List.find (\<lambda>t. tag_name t = name) (tags_of_list ns)"

definition find_first_attr :: "node list \<Rightarrow> string \<Rightarrow> string \<Rightarrow> string \<Rightarrow> node option" where
  "find_first_attr ns name k v =
     List.find (\<lambda>t. tag_name t = name \<and> attr_get t k = Some v) (tags_of_list ns)"

subsection \<open>authenticate: the username and password fields of the form\<close>

definition possible_username_names :: "string list" where
  "possible_username_names = [''username'', ''login'', ''email'', ''user'', ''login_name'']"

definition possible_password_names :: "string list" where
  "possible_password_names = [''password'', ''pass'', ''pwd'']"

text \<open>The two tests of the loop over \<open>input_fields\<close>.\<close>

definition is_username_input :: "node \<Rightarrow> bool" where
  "is_username_input inp =
     (lower (attr_get_default inp ''name'' []) \<in> set possible_username_names
      \<or> lower (attr_get_default inp ''type'' []) = ''email'')"

definition is_password_input :: "node \<Rightarrow> bool" where
  "is_password_input inp =
     (lower (attr_get_default inp ''name'' []) \<in> set possible_password_names
      \<or> lower (attr_get_default inp ''type'' []) = ''password'')"

text \<open>The loop, on the pair \<open>(username_field, password_field)\<close>.\<close>

fun scan_inputs :: "node list \<Rightarrow> string option \<times> string option \<Rightarrow> string option \<times> string option" where
  "scan_inputs [] st = st"
| "scan_inputs (inp # rest) (u, p) =
     (if \<not> truthy_str u \<and> is_username_input inp then scan_inputs rest (attr_get inp ''name'', p)
      else if \<not> truthy_str p \<and> is_password_input inp then scan_inputs rest (u, attr_get inp ''name'')
      else scan_inputs rest (u, p))"

text \<open>The loop from \<open>None, None\<close> and the check after it: the two field names, or the
  SchoolsAPIError raised at the check.\<close>

definition find_login_fields :: "node list \<Rightarrow> exn + (string \<times> string)" where
  "find_login_fields input_fields =
     (case scan_inputs input_fields (None, None) of (u, p) \<Rightarrow>
        if \<not> truthy_str u \<or> \<not> truthy_str p then
          Inl (SchoolsAPIError (''Cannot find login fields. Found: username='' @ str_of_opt u
                 @ '', password='' @ str_of_opt p))
        else Inr (the u, the p))"

subsection \<open>JSON values and the dictionaries the client returns\<close>

text \<open>What \<open>json.loads\<close> returns, and the dictionaries \<open>_make_request\<close> builds: a
  dictionary is an association list with distinct keys. A float is \<open>m * 2 ^ e\<close>.\<close>

datatype json =
    JNull
  | JBool bool
  | JInt int
  | JFloat int int
  | JStr string
  | JArr "json list"
  | JObj "(string \<times> json) list"

text \<open>Truth value of a Python value, \<open>key in value\<close> and \<open>value[key]\<close> for a string
  key.\<close>

fun truthy :: "json \<Rightarrow> bool" where
  "truthy JNull = False"
| "truthy (JBool b) = b"
| "truthy (JInt n) = (n \<noteq> 0)"
| "truthy (JFloat m e) = (m \<noteq> 0)"
| "truthy (JStr s) = (s \<noteq> [])"
| "truthy (JArr xs) = (xs \<noteq> [])"
| "truthy (JObj d) = (d \<noteq> [])"

fun py_in :: "string \<Rightarrow> json \<Rightarrow> exn + bool" where
  "py_in k (JObj d) = Inr (k \<in> set (map fst d))"
| "py_in k (JArr xs) = Inr (JStr k \<in> set xs)"
| "py_in k (JStr s) = Inr (str_in k s)"
| "py_in k j = Inl (TypeError ''argument is not iterable'')"

fun py_getitem :: "json \<Rightarrow> string \<Rightarrow> exn + json" where
  "py_getitem (JObj d) k = (case map_of d k of None \<Rightarrow> Inl (KeyError k) | Some v \<Rightarrow> Inr v)"
| "py_getitem (JArr xs) k = Inl (TypeError ''list indices must be integers or slices, not str'')"
| "py_getitem (JStr s) k = Inl (TypeError ''string indices must be integers'')"
| "py_getitem j k = Inl (TypeError ''object is not subscriptable'')"

subsection \<open>The HTTP transport and the libraries\<close>

record request =
  rq_method :: string
  rq_url :: string
  rq_params :: "(string \<times> string) list"
  rq_data :: "(string \<times> string) list"
  rq_headers :: "(string \<times> string) list"

record response =
  status_code :: int
  headers :: "(string \<times> string) list"
  body_text :: string
  resp_url :: string

text \<open>\<open>response.headers.get(key, default)\<close>: header names are compared without case.\<close>

definition headers_get :: "(string \<times> string) list \<Rightarrow> string \<Rightarrow> string \<Rightarrow> string" where
  "headers_get hs k d =
     (case map_of (map (\<lambda>(n, v). (lower n, v)) hs) (lower k) of None \<Rightarrow> d | Some v \<Rightarrow> v)"

text \<open>
  The parameters of the model. The state \<open>'w\<close> is everything outside the client that
  a request may read or change: the server and the cookie jar of the httpx client.
  \<^item> \<open>send\<close> is one exchange of the transport, a request and its answer with no
    redirect followed: the response, or the exception raised (\<open>RequestError\<close> for
    \<open>httpx.RequestError\<close>), and the new state;
  \<^item> \<open>cookie_jar\<close> is \<open>dict(self.session.cookies)\<close> in a state;
  \<^item> \<open>urljoin\<close> is \<open>urllib.parse.urljoin\<close>;
  \<^item> \<open>parse_html\<close> is \<open>BeautifulSoup(html, 'html.parser')\<close>;
  \<^item> \<open>json_loads\<close> is \<open>json.loads\<close>, with \<open>None\<close> for a \<open>JSONDecodeError\<close>.
\<close>

record 'w env =
  send :: "'w \<Rightarrow> request \<Rightarrow> (exn + response) \<times> 'w"
  cookie_jar :: "'w \<Rightarrow> (string \<times> string) list"
  urljoin :: "string \<Rightarrow> string \<Rightarrow> string"
  parse_html :: "string \<Rightarrow> soup"
  json_loads :: "string \<Rightarrow> json option"

subsection \<open>The client object and its session\<close>

text \<open>An \<open>httpx.AsyncClient\<close>: open, or closed by \<open>aclose\<close>. The fields \<open>cookies\<close>,
  \<open>csrf_token\<close> and \<open>headers\<close> of \<open>SchoolsAPI\<close> are read by no method modelled here.\<close>

datatype client = Client (is_closed: bool)

record api =
  base_url :: string
  session :: "client option"

definition init :: "string \<Rightarrow> api" where
  "init url = \<lparr>base_url = url, session = None\<rparr>"

definition aenter :: "api \<Rightarrow> exn + api" where
  "aenter self = Inr (self\<lparr>session := Some (Client False)\<rparr>)"

text \<open>\<open>__aexit__\<close>: \<open>aclose\<close> is called when \<open>self.session\<close> is set, and \<open>self.session\<close>
  still names the client afterwards. \<open>aclose\<close> of httpx closes an open client and does
  nothing to a closed one.\<close>

definition aexit :: "api \<Rightarrow> exn + api" where
  "aexit self =
     (case session self of
        None \<Rightarrow> Inr self
      | Some c \<Rightarrow> Inr (self\<lparr>session := Some (Client True)\<rparr>))"

text \<open>
  The client of \<open>__aenter__\<close> is built with \<open>follow_redirects=True\<close>, and no request of
  the methods modelled here overrides it. httpx then follows a response of status
  301, 302, 303, 307 or 308 that carries a Location header: it sends the request
  below to the target and goes on with the answer, up to 20 times; one redirect more
  raises \<open>TooManyRedirects\<close>, a \<open>RequestError\<close>. A 3xx response without a Location
  header is returned as it is.
\<close>

definition has_redirect_location :: "response \<Rightarrow> bool" where
  "has_redirect_location r =
     (status_code r \<in> set [301, 302, 303, 307, 308]
      \<and> map_of (map (\<lambda>(n, v). (lower n, v)) (headers r)) ''location'' \<noteq> None)"

text \<open>The request that follows a redirect: 303 and 302 turn every method but HEAD
  into GET, 301 turns POST into GET; a request turned into GET loses its body; the
  query parameters are those of the target.\<close>

definition redirect_method :: "string \<Rightarrow> int \<Rightarrow> string" where
  "redirect_method method code =
     (if code = 303 \<and> method \<noteq> ''HEAD'' then ''GET''
      else if code = 302 \<and> method \<noteq> ''HEAD'' then ''GET''
      else if code = 301 \<and> method = ''POST'' then ''GET''
      else method)"

definition build_redirect_request :: "'w env \<Rightarrow> request \<Rightarrow> response \<Rightarrow> request" where
  "build_redirect_request E rq r =
     (let method = redirect_method (rq_method rq) (status_code r) in
      \<lparr>rq_method = method,
       rq_url = urljoin E (rq_url rq) (headers_get (headers r) ''Location'' []),
       rq_params = [],
       rq_data = (if method \<noteq> rq_method rq \<and> method = ''GET'' then [] else rq_data rq),
       rq_headers = rq_headers rq\<rparr>)"

text \<open>Sending with at most \<open>n\<close> redirects followed.\<close>

fun send_following :: "'w env \<Rightarrow> nat \<Rightarrow> 'w \<Rightarrow> request \<Rightarrow> (exn + response) \<times> 'w" where
  "send_following E 0 w rq =
     (case send E w rq of
        (Inl e, w') \<Rightarrow> (Inl e, w')
      | (Inr r, w') \<Rightarrow>
          if has_redirect_location r
          then (Inl (RequestError ''Exceeded maximum allowed redirects.''), w')
          else (Inr r, w'))"
| "send_following E (Suc n) w rq =
     (case send E w rq of
        (Inl e, w') \<Rightarrow> (Inl e, w')
      | (Inr r, w') \<Rightarrow>
          if has_redirect_location r
          then send_following E n w' (build_redirect_request E rq r)
          else (Inr r, w'))"

text \<open>A request through the httpx client: a closed client raises \<open>RuntimeError\<close>
  before anything is sent, an open one sends and follows redirects.\<close>

definition client_request ::
  "'w env \<Rightarrow> 'w \<Rightarrow> client \<Rightarrow> request \<Rightarrow> (exn + response) \<times> 'w" where
  "client_request E w c rq =
     (if is_closed c
      then (Inl (RuntimeError ''Cannot send a request, as the client has been closed.''), w)
      else send_following E 20 w rq)"

definition build_url :: "'w env \<Rightarrow> api \<Rightarrow> string \<Rightarrow> string" where
  "build_url E self endpoint = urljoin E (base_url self) endpoint"

subsection \<open>\_extract\_json\_from\_html\<close>

text \<open>The loop over the lines of one script: \<open>Some j\<close> when it returns \<open>j\<close>, \<open>None\<close>
  when it ends. A \<open>JSONDecodeError\<close> goes on with the next line.\<close>

fun scan_lines :: "(string \<Rightarrow> json option) \<Rightarrow> string list \<Rightarrow> json option" where
  "scan_lines loads [] = None"
| "scan_lines loads (line # rest) =
     (if str_in ''data'' (lower line) \<or> str_in ''config'' (lower line) then
        (if CHR ''{'' \<in> set line \<and> CHR ''}'' \<in> set line then
           (case loads (slice line (find_char CHR ''{'' line) (rfind_char_end CHR ''}'' line)) of
              None \<Rightarrow> scan_lines loads rest
            | Some j \<Rightarrow> Some j)
         else scan_lines loads rest)
      else scan_lines loads rest)"

text \<open>The loop over the scripts.\<close>

fun scan_scripts :: "(string \<Rightarrow> json option) \<Rightarrow> node list \<Rightarrow> json option" where
  "scan_scripts loads [] = None"
| "scan_scripts loads (script # rest) =
     (if truthy_str (node_string script) then
        (let content = strip (the (node_string script)) in
         if str_in ''window.'' content \<or> str_in ''var '' content then
           (case scan_lines loads (split_on CHR 0x0A content) of
              None \<Rightarrow> scan_scripts loads rest
            | Some j \<Rightarrow> Some j)
         else scan_scripts loads rest)
      else scan_scripts loads rest)"

definition extract_json_from_html :: "'w env \<Rightarrow> string \<Rightarrow> json" where
  "extract_json_from_html E html =
     (case scan_scripts (json_loads E) (find_all (parse_html E html) ''script'') of
        Some j \<Rightarrow> j
      | None \<Rightarrow> JObj [(''html'', JStr html)])"

subsection \<open>\_make\_request\<close>

text \<open>The body of the \<open>try\<close> after the response has arrived. \<open>response.json()\<close>
  raises a \<open>ValueError\<close> on a body that is not JSON.\<close>

definition handle_response :: "'w env \<Rightarrow> response \<Rightarrow> bool \<Rightarrow> exn + json" where
  "handle_response E r allow_errors =
     (let content_type = headers_get (headers r) ''Content-Type'' [];
          text = body_text r in
      if status_code r = 200 then
        (if str_in ''application/json'' content_type then
           (case json_loads E text of
              None \<Rightarrow> Inl (ValueError ''Expecting value'')
            | Some j \<Rightarrow> Inr j)
         else
           (let json_data = extract_json_from_html E text in
            if truthy json_data then
              (case py_in ''html'' json_data of
                 Inl e \<Rightarrow> Inl e
               | Inr b \<Rightarrow>
                   if \<not> b then Inr json_data
                   else Inr (JObj [(''html'', JStr text), (''status'', JInt (status_code r))]))
            else Inr (JObj [(''html'', JStr text), (''status'', JInt (status_code r))])))
      else if allow_errors then
        Inr (JObj [(''html'', JStr text), (''status'', JInt (status_code r)),
                   (''error'', JBool True), (''url'', JStr (resp_url r))])
      else if status_code r = 500 \<and> str_in ''html'' content_type then
        Inr (JObj [(''html'', JStr text), (''status'', JInt (status_code r)),
                   (''error'', JBool True)])
      else Inl (SchoolsAPIError (''HTTP '' @ str_of_int (status_code r) @ '': ''
                  @ take 200 text @ ''...'')))"

text \<open>\<open>_make_request(method, endpoint, allow_errors, params)\<close>. Only
  \<open>httpx.RequestError\<close> is caught; every other exception leaves the method as it is.\<close>

definition make_request ::
  "'w env \<Rightarrow> api \<Rightarrow> 'w \<Rightarrow> string \<Rightarrow> string \<Rightarrow> bool \<Rightarrow> (string \<times> string) list
     \<Rightarrow> (exn + json) \<times> 'w" where
  "make_request E self w method endpoint allow_errors params =
     (case session self of
        None \<Rightarrow> (Inl (SchoolsAPIError ''Session not initialized. Use async context manager.''), w)
      | Some c \<Rightarrow>
          (case client_request E w c
                  \<lparr>rq_method = method, rq_url = build_url E self endpoint, rq_params = params,
                   rq_data = [], rq_headers = []\<rparr> of
             (Inl (RequestError m), w') \<Rightarrow>
               (if allow_errors
                then Inr (JObj [(''error'', JStr m), (''client_error'', JBool True)])
                else Inl (SchoolsAPIError (''Request failed: '' @ m)), w')
           | (Inl e, w') \<Rightarrow> (Inl e, w')
           | (Inr r, w') \<Rightarrow> (handle_response E r allow_errors, w')))"

subsection \<open>get\_csrf\_token\<close>

text \<open>The loop over \<open>csrf_inputs\<close>: \<open>token = get('value') or get('content')\<close>.\<close>

fun first_token :: "node option list \<Rightarrow> string option" where
  "first_token [] = None"
| "first_token (None # rest) = first_token rest"
| "first_token (Some csrf_input # rest) =
     (let token = (if truthy_str (attr_get csrf_input ''value'') then attr_get csrf_input ''value''
                   else attr_get csrf_input ''content'')
      in if truthy_str token then token else first_token rest)"

text \<open>
  The two regular expressions, searched without case:
  \<^verbatim>\<open>csrf[_\-]?token["\']?\s*[:=]\s*["\']([a-zA-Z0-9\-_]+)["\']\<close> and
  \<^verbatim>\<open>_token["\']?\s*[:=]\s*["\']([a-zA-Z0-9\-_]+)["\']\<close>.
  No part of either can match a character with which the next part starts, so the
  greedy match is the only one and \<open>re.search\<close> is the first position with a match.
\<close>

fun eat_ci :: "string \<Rightarrow> string \<Rightarrow> string option" where
  "eat_ci [] s = Some s"
| "eat_ci (p # ps) [] = None"
| "eat_ci (p # ps) (c # cs) = (if lower_char c = p then eat_ci ps cs else None)"

fun eat_opt :: "(char \<Rightarrow> bool) \<Rightarrow> string \<Rightarrow> string" where
  "eat_opt P [] = []"
| "eat_opt P (c # cs) = (if P c then cs else c # cs)"

fun eat_one :: "(char \<Rightarrow> bool) \<Rightarrow> string \<Rightarrow> string option" where
  "eat_one P [] = None"
| "eat_one P (c # cs) = (if P c then Some cs else None)"

definition is_quote :: "char \<Rightarrow> bool" where
  "is_quote c = (c = CHR 0x22 \<or> c = CHR 0x27)"

definition is_token_char :: "char \<Rightarrow> bool" where
  "is_token_char c =
     (c \<in> set ''abcdefghijklmnopqrstuvwxyzABCDEFGHIJKLMNOPQRSTUVWXYZ0123456789-_'')"

text \<open>The common end of both expressions, from the optional quote on.\<close>

definition token_tail :: "string \<Rightarrow> string option" where
  "token_tail s =
     (case eat_one (\<lambda>c. c = CHR '':'' \<or> c = CHR ''='') (dropWhile is_space (eat_opt is_quote s)) of
        None \<Rightarrow> None
      | Some s1 \<Rightarrow>
          (case eat_one is_quote (dropWhile is_space s1) of
             None \<Rightarrow> None
           | Some s2 \<Rightarrow>
               (if takeWhile is_token_char s2 = [] then None
                else (case eat_one is_quote (dropWhile is_token_char s2) of
                        None \<Rightarrow> None
                      | Some s3 \<Rightarrow> Some (takeWhile is_token_char s2)))))"

definition csrf_token_pattern :: "string \<Rightarrow> string option" where
  "csrf_token_pattern s =
     (case eat_ci ''csrf'' s of
        None \<Rightarrow> None
      | Some s1 \<Rightarrow>
          (case eat_ci ''token'' (eat_opt (\<lambda>c. c = CHR ''_'' \<or> c = CHR ''-'') s1) of
             None \<Rightarrow> None
           | Some s2 \<Rightarrow> token_tail s2))"

definition token_pattern :: "string \<Rightarrow> string option" where
  "token_pattern s = (case eat_ci ''_token'' s of None \<Rightarrow> None | Some s1 \<Rightarrow> token_tail s1)"

fun re_search :: "(string \<Rightarrow> string option) \<Rightarrow> string \<Rightarrow> string option" where
  "re_search pat [] = pat []"
| "re_search pat (c # cs) =
     (case pat (c # cs) of None \<Rightarrow> re_search pat cs | Some g \<Rightarrow> Some g)"

text \<open>The loop over the scripts.\<close>

fun script_token :: "node list \<Rightarrow> string option" where
  "script_token [] = None"
| "script_token (script # rest) =
     (if truthy_str (node_string script) then
        (let content = the (node_string script) in
         if str_in ''csrf'' (lower content) \<or> str_in ''token'' (lower content) then
           (case re_search csrf_token_pattern content of
              Some g \<Rightarrow> Some g
            | None \<Rightarrow>
                (case re_search token_pattern content of
                   Some g \<Rightarrow> Some g
                 | None \<Rightarrow> script_token rest))
         else script_token rest)
      else script_token rest)"

definition get_csrf_token :: "'w env \<Rightarrow> string \<Rightarrow> string option" where
  "get_csrf_token E html =
     (let soup = parse_html E html;
          csrf_inputs = [find_first_attr soup ''input'' ''name'' ''csrfmiddlewaretoken'',
                         find_first_attr soup ''input'' ''name'' ''_token'',
                         find_first_attr soup ''input'' ''name'' ''csrf_token'',
                         find_first_attr soup ''meta'' ''name'' ''csrf-token'']
      in case first_token csrf_inputs of
           Some token \<Rightarrow> Some token
         | None \<Rightarrow> script_token (find_all soup ''script''))"

subsection \<open>authenticate\<close>

datatype auth_result =
    Success (message: string) (status: int) (redirect: "string option")
            (cookies: "(string \<times> string) list")
  | Failure (error: string) (status: int) (response_excerpt: "string option")

text \<open>Steps 3 to 5: the form, its action, the hidden fields, the two credential
  fields and the token. The result is the action URL and \<open>form_data\<close>.\<close>

fun collect_hidden :: "node list \<Rightarrow> (string \<times> string) list \<Rightarrow> (string \<times> string) list" where
  "collect_hidden [] form_data = form_data"
| "collect_hidden (hidden_input # rest) form_data =
     (if truthy_str (attr_get hidden_input ''name'')
      then collect_hidden rest
             (AList.update (the (attr_get hidden_input ''name''))
                (attr_get_default hidden_input ''value'' []) form_data)
      else collect_hidden rest form_data)"

definition csrf_names :: "string list" where
  "csrf_names = [''csrfmiddlewaretoken'', ''_token'', ''csrf_token'']"

fun find_csrf_name :: "node list \<Rightarrow> string option" where
  "find_csrf_name [] = None"
| "find_csrf_name (inp # rest) =
     (case attr_get inp ''name'' of
        None \<Rightarrow> find_csrf_name rest
      | Some n \<Rightarrow> if n \<in> set csrf_names then Some n else find_csrf_name rest)"

definition build_form_data ::
  "'w env \<Rightarrow> api \<Rightarrow> string \<Rightarrow> string \<Rightarrow> string \<Rightarrow> exn + (string \<times> (string \<times> string) list)" where
  "build_form_data E self login_html username password =
     (case find_first (parse_html E login_html) ''form'' of
        None \<Rightarrow> Inl (SchoolsAPIError ''Login form not found on the page'')
      | Some form \<Rightarrow>
          (let form_action0 = attr_get_default form ''action'' ''/login'';
               form_action = (if \<not> startswith form_action0 ''http''
                              then build_url E self form_action0 else form_action0);
               csrf_token = get_csrf_token E login_html;
               hidden_inputs = find_all_attr (contents form) ''input'' ''type'' ''hidden'';
               form_data = collect_hidden hidden_inputs []
           in case find_login_fields (find_all (contents form) ''input'') of
                Inl e \<Rightarrow> Inl e
              | Inr (username_field, password_field) \<Rightarrow>
                  (let form_data1 = AList.update password_field password
                                      (AList.update username_field username form_data)
                   in if truthy_str csrf_token then
                        (case find_csrf_name hidden_inputs of
                           Some csrf_name \<Rightarrow>
                             if csrf_name \<noteq> [] then
                               Inr (form_action, AList.update csrf_name (the csrf_token) form_data1)
                             else Inr (form_action, form_data1)
                         | None \<Rightarrow> Inr (form_action, form_data1))
                      else Inr (form_action, form_data1))))"

text \<open>Steps 1 to 6, the body of the \<open>try\<close> up to the POST: the response to the
  submission, or the exception raised on the way.\<close>

definition get_request :: "string \<Rightarrow> request" where
  "get_request u = \<lparr>rq_method = ''GET'', rq_url = u, rq_params = [], rq_data = [], rq_headers = []\<rparr>"

definition submit_login ::
  "'w env \<Rightarrow> api \<Rightarrow> 'w \<Rightarrow> string \<Rightarrow> string \<Rightarrow> (exn + response) \<times> 'w" where
  "submit_login E self w username password =
     (case session self of
        None \<Rightarrow>
          (Inl (AttributeError (CHR 0x27 # ''NoneType'' @ CHR 0x27 # '' object has no attribute ''
                  @ CHR 0x27 # ''get'' @ [CHR 0x27])), w)
      | Some c \<Rightarrow>
          (case client_request E w c (get_request (build_url E self ''/'')) of
             (Inl e, w1) \<Rightarrow> (Inl e, w1)
           | (Inr main_response, w1) \<Rightarrow>
               (case client_request E w1 c (get_request (build_url E self ''/login'')) of
                  (Inl e, w2) \<Rightarrow> (Inl e, w2)
                | (Inr login_response, w2) \<Rightarrow>
                    if status_code login_response \<noteq> 200 then
                      (Inl (SchoolsAPIError (''Cannot access login page: HTTP ''
                              @ str_of_int (status_code login_response))), w2)
                    else
                      (case build_form_data E self (body_text login_response) username password of
                         Inl e \<Rightarrow> (Inl e, w2)
                       | Inr (form_action, form_data) \<Rightarrow>
                           client_request E w2 c
                             \<lparr>rq_method = ''POST'', rq_url = form_action, rq_params = [],
                              rq_data = form_data,
                              rq_headers =
                                [(''Content-Type'', ''application/x-www-form-urlencoded''),
                                 (''Referer'', build_url E self ''/login''),
                                 (''Origin'', base_url self)]\<rparr>))))"

text \<open>Step 7. The filter of \<open>find_all(['div', 'span', 'p'], class_=...)\<close> is applied by
  BeautifulSoup to each class of the tag and to the classes joined by a space; as
  neither word holds a space, that is the test on the whole attribute.\<close>

definition is_error_element :: "node \<Rightarrow> bool" where
  "is_error_element t =
     (tag_name t \<in> set [''div'', ''span'', ''p'']
      \<and> (case attr_get t ''class'' of
           None \<Rightarrow> False
         | Some x \<Rightarrow> x \<noteq> [] \<and> (str_in ''error'' (lower x) \<or> str_in ''alert'' (lower x))))"

definition classify_response :: "'w env \<Rightarrow> response \<Rightarrow> 'w \<Rightarrow> auth_result" where
  "classify_response E auth_response w =
     (if status_code auth_response = 200 then
        (let error_elements = filter is_error_element
                                (tags_of_list (parse_html E (body_text auth_response)))
         in if error_elements \<noteq> [] then
              Failure (''Authentication failed: ''
                         @ join '' '' (map (\<lambda>elem. strip (get_text elem)) error_elements))
                      (status_code auth_response) None
            else Success ''Authentication successful'' (status_code auth_response) None
                         (cookie_jar E w))
      else if status_code auth_response \<in> set [302, 303, 307] then
        (let location = headers_get (headers auth_response) ''Location'' []
         in if \<not> str_in ''/login'' (lower location) then
              Success ''Authentication successful (redirected)'' (status_code auth_response)
                      (Some location) (cookie_jar E w)
            else Failure ''Authentication failed (redirected back to login)''
                         (status_code auth_response) None)
      else Failure (''Authentication failed: HTTP '' @ str_of_int (status_code auth_response))
                   (status_code auth_response) (Some (take 500 (body_text auth_response))))"

text \<open>The whole method: every exception of the \<open>try\<close> becomes a SchoolsAPIError.\<close>

definition authenticate ::
  "'w env \<Rightarrow> api \<Rightarrow> 'w \<Rightarrow> string \<Rightarrow> string \<Rightarrow> (exn + auth_result) \<times> 'w" where
  "authenticate E self w username password =
     (case submit_login E self w username password of
        (Inl e, w') \<Rightarrow> (Inl (SchoolsAPIError (''Authentication failed: '' @ str_of_exn e)), w')
      | (Inr auth_response, w') \<Rightarrow> (Inr (classify_response E auth_response w'), w'))"

subsection \<open>get\_subdomains\_page and search\_schools\<close>

record school =
  school_name :: string
  school_url :: string
  school_type :: string
  school_source :: "string option"

text \<open>The lines \<open>if 'html' in result: soup = BeautifulSoup(result['html'], 'html.parser');
  links = soup.find_all('a', href=True)\<close>, which the three page readers share:
  \<open>None\<close> when the key is absent. BeautifulSoup raises on a value that is no string.\<close>

definition beautiful_soup :: "'w env \<Rightarrow> json \<Rightarrow> exn + soup" where
  "beautiful_soup E v =
     (case v of JStr html \<Rightarrow> Inr (parse_html E html)
      | _ \<Rightarrow> Inl (TypeError ''markup is not a string''))"

definition html_links :: "'w env \<Rightarrow> json \<Rightarrow> exn + node list option" where
  "html_links E result =
     (case py_in ''html'' result of
        Inl e \<Rightarrow> Inl e
      | Inr b \<Rightarrow>
          if b then
            (case py_getitem result ''html'' of
               Inl e \<Rightarrow> Inl e
             | Inr v \<Rightarrow>
                 (case beautiful_soup E v of
                    Inl e \<Rightarrow> Inl e
                  | Inr soup \<Rightarrow> Inr (Some (find_all_has soup ''a'' ''href''))))
          else Inr None)"

definition link_href :: "node \<Rightarrow> string" where
  "link_href link = attr_get_default link ''href'' []"

definition link_text :: "node \<Rightarrow> string" where
  "link_text link = strip (get_text link)"

text \<open>The three loops over \<open>links\<close>, each appending one entry for a link it keeps.\<close>

definition subdomain_links :: "node list \<Rightarrow> school list" where
  "subdomain_links links =
     map (\<lambda>link. \<lparr>school_name = link_text link, school_url = link_href link,
                   school_type = ''subdomain'', school_source = None\<rparr>)
       (filter (\<lambda>link. (str_in ''.schools.by'' (link_href link)
                           \<or> str_in ''schools.by/'' (link_href link))
                        \<and> link_text link \<noteq> [] \<and> length (link_text link) > 3) links)"

definition main_page_links :: "string \<Rightarrow> node list \<Rightarrow> school list" where
  "main_page_links query links =
     map (\<lambda>link. \<lparr>school_name = link_text link, school_url = link_href link,
                   school_type = ''main_page_link'', school_source = None\<rparr>)
       (filter (\<lambda>link. ((str_in ''.schools.by'' (link_href link) \<and> str_in ''http'' (link_href link))
                           \<or> startswith (link_href link) ''/subdomains'')
                        \<and> (link_text link \<noteq> [] \<and> length (link_text link) > 3
                             \<and> str_in (lower query) (lower (link_text link)))) links)"

definition test_page_links :: "string \<Rightarrow> string \<Rightarrow> node list \<Rightarrow> school list" where
  "test_page_links query page links =
     map (\<lambda>link. \<lparr>school_name = link_text link, school_url = link_href link,
                   school_type = ''from_'' @ page, school_source = Some page\<rparr>)
       (filter (\<lambda>link. ((str_in ''.schools.by'' (link_href link) \<or> startswith (link_href link) ''http'')
                           \<and> link_text link \<noteq> [])
                        \<and> (str_in (lower query) (lower (link_text link))
                             \<and> length (link_text link) > 3)) links)"

text \<open>\<open>get_subdomains_page\<close>: the body of its \<open>try\<close>, and the method, whose handler
  returns the empty list.\<close>

definition get_subdomains_page_try :: "'w env \<Rightarrow> api \<Rightarrow> 'w \<Rightarrow> (exn + school list) \<times> 'w" where
  "get_subdomains_page_try E self w =
     (case make_request E self w ''GET'' ''/subdomains'' True [] of
        (Inl e, w') \<Rightarrow> (Inl e, w')
      | (Inr result, w') \<Rightarrow>
          (case html_links E result of
             Inl e \<Rightarrow> (Inl e, w')
           | Inr None \<Rightarrow> (Inr [], w')
           | Inr (Some links) \<Rightarrow> (Inr (subdomain_links links), w')))"

definition get_subdomains_page :: "'w env \<Rightarrow> api \<Rightarrow> 'w \<Rightarrow> (exn + school list) \<times> 'w" where
  "get_subdomains_page E self w =
     (case get_subdomains_page_try E self w of
        (Inl e, w') \<Rightarrow> (Inr [], w')
      | (Inr schools, w') \<Rightarrow> (Inr schools, w'))"

text \<open>One round of the loop over \<open>test_pages\<close>, with its own \<open>try\<close>: the entries the page
  adds to \<open>schools\<close>. An exception can only come before the first \<open>append\<close>.\<close>

definition test_page :: "'w env \<Rightarrow> api \<Rightarrow> 'w \<Rightarrow> string \<Rightarrow> string \<Rightarrow> school list \<times> 'w" where
  "test_page E self w query page =
     (case make_request E self w ''GET'' page True [] of
        (Inl e, w') \<Rightarrow> ([], w')
      | (Inr result, w') \<Rightarrow>
          (case html_links E result of
             Inl e \<Rightarrow> ([], w')
           | Inr None \<Rightarrow> ([], w')
           | Inr (Some links) \<Rightarrow> (test_page_links query page links, w')))"

fun test_pages_loop ::
  "'w env \<Rightarrow> api \<Rightarrow> 'w \<Rightarrow> string \<Rightarrow> string list \<Rightarrow> school list \<Rightarrow> school list \<times> 'w" where
  "test_pages_loop E self w query [] schools = (schools, w)"
| "test_pages_loop E self w query (page # pages) schools =
     (case test_page E self w query page of
        (found, w') \<Rightarrow> test_pages_loop E self w' query pages (schools @ found))"

text \<open>The loop that removes duplicates, on \<open>seen_urls\<close> and \<open>unique_schools\<close>.\<close>

fun unique_loop :: "school list \<Rightarrow> string set \<Rightarrow> school list \<Rightarrow> school list" where
  "unique_loop [] seen_urls unique_schools = unique_schools"
| "unique_loop (school # rest) seen_urls unique_schools =
     (if school_url school \<notin> seen_urls
      then unique_loop rest (insert (school_url school) seen_urls) (unique_schools @ [school])
      else unique_loop rest seen_urls unique_schools)"

text \<open>The body of the \<open>try\<close> of \<open>search_schools\<close>: the list \<open>schools\<close> as it stands when
  the body ends, and the value returned or the exception raised.\<close>

definition search_schools_try ::
  "'w env \<Rightarrow> api \<Rightarrow> 'w \<Rightarrow> string \<Rightarrow> (school list \<times> (exn + school list)) \<times> 'w" where
  "search_schools_try E self w query =
     (case make_request E self w ''GET'' ''/'' True [] of
        (Inl e, w1) \<Rightarrow> (([], Inl e), w1)
      | (Inr main_page, w1) \<Rightarrow>
          (case html_links E main_page of
             Inl e \<Rightarrow> (([], Inl e), w1)
           | Inr links \<Rightarrow>
               (let schools1 = (case links of None \<Rightarrow> [] | Some ls \<Rightarrow> main_page_links query ls)
                in case get_subdomains_page E self w1 of
                     (Inl e, w2) \<Rightarrow> ((schools1, Inl e), w2)
                   | (Inr subdomains, w2) \<Rightarrow>
                       (let schools2 = schools1
                              @ filter (\<lambda>school. str_in (lower query) (lower (school_name school)))
                                  subdomains
                        in case test_pages_loop E self w2 query
                                  [''/capabilities'', ''/help'', ''/about''] schools2 of
                             (schools3, w3) \<Rightarrow>
                               ((schools3, Inr (take 15 (unique_loop schools3 {} []))), w3)))))"

definition search_schools :: "'w env \<Rightarrow> api \<Rightarrow> 'w \<Rightarrow> string \<Rightarrow> (exn + school list) \<times> 'w" where
  "search_schools E self w query =
     (case search_schools_try E self w query of
        ((schools, Inl e), w') \<Rightarrow> (Inr schools, w')
      | ((schools, Inr unique_schools), w') \<Rightarrow> (Inr unique_schools, w'))"

text \<open>The list \<open>schools\<close> at the end of \<open>search_schools\<close>: everything harvested, in the
  order in which it was appended.\<close>

definition harvested :: "'w env \<Rightarrow> api \<Rightarrow> 'w \<Rightarrow> string \<Rightarrow> school list" where
  "harvested E self w query = fst (fst (search_schools_try E self w query))"

subsection \<open>Fixtures\<close>

text \<open>A test double for the libraries: the state is the list of the requests sent so
  far, the server answers each request by itself, the parser and the JSON decoder
  are given as tables, and every path is joined to the one origin of the fixtures.\<close>

definition fixture_env ::
  "(request \<Rightarrow> exn + response) \<Rightarrow> (string \<Rightarrow> soup) \<Rightarrow> (string \<Rightarrow> json option)
     \<Rightarrow> request list env" where
  "fixture_env server parser loads =
     \<lparr>send = (\<lambda>w rq. (server rq, w @ [rq])),
      cookie_jar = (\<lambda>w. [(''sessionid'', ''s1'')]),
      urljoin = (\<lambda>base endpoint. ''https://schools.by'' @ endpoint),
      parse_html = parser,
      json_loads = loads\<rparr>"

definition page :: "int \<Rightarrow> (string \<times> string) list \<Rightarrow> string \<Rightarrow> response" where
  "page code hs body = \<lparr>status_code = code, headers = hs, body_text = body, resp_url = []\<rparr>"

definition open_api :: api where
  "open_api = \<lparr>base_url = ''https://schools.by'', session = Some (Client False)\<rparr>"

definition form_without_password :: soup where
  "form_without_password =
     [Tag ''form'' [(''action'', ''/login'')]
        [Tag ''input'' [(''type'', ''text''), (''name'', ''login'')] [],
         Tag ''input'' [(''type'', ''submit'')] []]]"

definition login_form :: soup where
  "login_form =
     [Tag ''form'' [(''action'', ''/login'')]
        [Tag ''input'' [(''type'', ''hidden''), (''name'', ''_token''), (''value'', ''t0'')] [],
         Tag ''input'' [(''type'', ''text''), (''name'', ''login'')] [],
         Tag ''input'' [(''type'', ''password''), (''name'', ''password'')] []]]"

text \<open>A server that answers every GET with the login page and the POST with \<open>answer\<close>; a
  parser that knows the login page and reads any other body as \<open>answer\<close>.\<close>

definition login_server :: "response \<Rightarrow> request \<Rightarrow> exn + response" where
  "login_server answer rq =
     (if rq_method rq = ''POST'' then Inr answer else Inr (page 200 [] ''login page''))"

definition login_parser :: "soup \<Rightarrow> string \<Rightarrow> soup" where
  "login_parser answer html = (if html = ''login page'' then login_form else answer)"



definition closed_api :: api where
  "closed_api = \<lparr>base_url = ''https://schools.by'', session = Some (Client True)\<rparr>"

subsection \<open>The extraction as the specification words it\<close>

text \<open>Following the specification: the candidates of one script are its lines that
  contain data or config, in any case, and both braces; of each, the text from the
  first opening brace to the last closing brace.\<close>

definition spec_candidates :: "string \<Rightarrow> string list" where
  "spec_candidates content =
     map (\<lambda>line. slice line (find_char CHR ''{'' line) (rfind_char_end CHR ''}'' line))
       (filter (\<lambda>line. (str_in ''data'' (lower line) \<or> str_in ''config'' (lower line))
                        \<and> CHR ''{'' \<in> set line \<and> CHR ''}'' \<in> set line)
          (split_on CHR 0x0A content))"

text \<open>Following the specification: malformed candidates are skipped and the first
  successful parse wins.\<close>

definition spec_first_parse :: "(string \<Rightarrow> json option) \<Rightarrow> string list \<Rightarrow> json option" where
  "spec_first_parse loads candidates =
     (case List.map_filter loads candidates of [] \<Rightarrow> None | j # js \<Rightarrow> Some j)"

text \<open>The texts of the inline script blocks of a document, stripped.\<close>

definition script_texts :: "soup \<Rightarrow> string list" where
  "script_texts doc =
     List.map_filter
       (\<lambda>script. case node_string script of
                    None \<Rightarrow> None
                  | Some s \<Rightarrow> if s = [] then None else Some (strip s))
       (find_all doc ''script'')"

text \<open>A JSON decoder that knows two texts, and a parser that knows four bodies, each a
  page with one script.\<close>

definition config_json :: "string \<Rightarrow> json option" where
  \<open>config_json s =
     (if s = ''{"a": 1}'' then Some (JObj [(''a'', JInt 1)])
      else if s = ''{"html": "x"}'' then Some (JObj [(''html'', JStr ''x'')])
      else None)\<close>

definition script_page :: "string \<Rightarrow> soup" where
  "script_page code = [Tag ''html'' [] [Tag ''script'' [] [Text code], Tag ''p'' [] [Text ''hello'']]]"

definition script_parser :: "string \<Rightarrow> soup" where
  \<open>script_parser html =
     (if html = ''const'' then script_page ''const config = {"a": 1};''
      else if html = ''var'' then script_page ''var config = {"a": 1};''
      else if html = ''x5'' then script_page ''var x = 5;''
      else if html = ''html'' then script_page ''window.data = {"html": "x"};''
      else [])\<close>

text \<open>Pages with links for the harvesting methods.\<close>

definition anchor :: "string \<Rightarrow> string \<Rightarrow> node" where
  "anchor href txt = Tag ''a'' [(''href'', href)] [Text txt]"

definition harvest_parser :: "string \<Rightarrow> soup" where
  "harvest_parser html =
     (if html = ''main'' then
        [Tag ''div'' []
           [anchor ''https://sch1.schools.by'' ''Minsk School 1'',
            anchor ''/about'' ''About Minsk'',
            anchor ''https://sch2.schools.by'' ''Gomel School 2'',
            anchor ''https://sch1.schools.by'' '' Minsk School 1 again '']]
      else if html = ''subdomains'' then
        [anchor ''https://sch3.schools.by'' ''Gymnasium 3 Minsk'',
         anchor ''https://sch1.schools.by'' ''Minsk School 1'',
         Tag ''a'' [] [Text ''Minsk without target'']]
      else if html = ''about'' then
        [anchor ''https://sch4.schools.by'' ''MINSK lyceum'',
         anchor ''https://sch3.schools.by'' ''Minsk gymnasium'']
      else [])"

text \<open>The server fails on two of the test pages: the transport raises on one, the other
  is declared as JSON and decodes to a number.\<close>

definition harvest_server :: "request \<Rightarrow> exn + response" where
  "harvest_server rq =
     (if rq_url rq = ''https://schools.by/'' then Inr (page 200 [] ''main'')
      else if rq_url rq = ''https://schools.by/subdomains'' then Inr (page 200 [] ''subdomains'')
      else if rq_url rq = ''https://schools.by/capabilities'' then Inl (RuntimeError ''boom'')
      else if rq_url rq = ''https://schools.by/help''
        then Inr (page 200 [(''Content-Type'', ''application/json'')] ''5'')
      else if rq_url rq = ''https://schools.by/about'' then Inr (page 200 [] ''about'')
      else Inr (page 404 [] []))"

definition harvest_json :: "string \<Rightarrow> json option" where
  "harvest_json s = (if s = ''5'' then Some (JInt 5) else None)"

definition harvest_env :: "request list env" where
  "harvest_env = fixture_env harvest_server harvest_parser harvest_json"

definition minsk_schools :: "school list" where
  "minsk_schools =
     [\<lparr>school_name = ''Minsk School 1'', school_url = ''https://sch1.schools.by'',
       school_type = ''main_page_link'', school_source = None\<rparr>,
      \<lparr>school_name = ''Gymnasium 3 Minsk'', school_url = ''https://sch3.schools.by'',
       school_type = ''subdomain'', school_source = None\<rparr>,
      \<lparr>school_name = ''MINSK lyceum'', school_url = ''https://sch4.schools.by'',
       school_type = ''from_/about'', school_source = Some ''/about''\<rparr>]"

subsection \<open>The token discovery as the specification words it\<close>

text \<open>Following the specification: the hits of the token discovery are the value of a
  hidden input with one of the three names, the content of the \<open>csrf-token\<close> meta tag
  and a token matched in a script; the first hit in this order is returned.\<close>

definition spec_hidden_input_value :: "soup \<Rightarrow> string \<Rightarrow> string option" where
  "spec_hidden_input_value doc name =
     (case List.find (\<lambda>t. tag_name t = ''input'' \<and> attr_get t ''type'' = Some ''hidden''
                            \<and> attr_get t ''name'' = Some name) (tags_of_list doc) of
        None \<Rightarrow> None
      | Some t \<Rightarrow> attr_get t ''value'')"

definition spec_meta_content :: "soup \<Rightarrow> string option" where
  "spec_meta_content doc =
     (case find_first_attr doc ''meta'' ''name'' ''csrf-token'' of
        None \<Rightarrow> None
      | Some t \<Rightarrow> attr_get t ''content'')"

definition spec_csrf_token :: "soup \<Rightarrow> string option" where
  "spec_csrf_token doc =
     (case List.map_filter id
             [spec_hidden_input_value doc ''csrfmiddlewaretoken'',
              spec_hidden_input_value doc ''_token'',
              spec_hidden_input_value doc ''csrf_token'',
              spec_meta_content doc,
              script_token (find_all doc ''script'')] of
        [] \<Rightarrow> None
      | token # rest \<Rightarrow> Some token)"

text \<open>What the code takes from an element it has found: the attribute \<open>value\<close>, or the
  attribute \<open>content\<close> when \<open>value\<close> is absent or empty; nothing when both are.\<close>

definition element_token :: "node option \<Rightarrow> string option" where
  "element_token found =
     (case found of
        None \<Rightarrow> None
      | Some t \<Rightarrow>
          if truthy_str (attr_get t ''value'') then attr_get t ''value''
          else if truthy_str (attr_get t ''content'') then attr_get t ''content''
          else None)"

text \<open>Pages for the token discovery: a visible input with a token name, a hidden input
  beside a meta tag and a script, and a token in a script only.\<close>

definition visible_token_page :: soup where
  "visible_token_page =
     [Tag ''head'' [] [Tag ''meta'' [(''name'', ''csrf-token''), (''content'', ''from-meta'')] []],
      Tag ''form'' []
        [Tag ''input'' [(''type'', ''text''), (''name'', ''_token''), (''value'', ''from-visible'')] [],
         Tag ''input'' [(''type'', ''hidden''), (''name'', ''csrf_token''), (''value'', ''from-hidden'')]
           []]]"

definition hidden_token_page :: soup where
  \<open>hidden_token_page =
     [Tag ''head'' []
        [Tag ''meta'' [(''name'', ''csrf-token''), (''content'', ''from-meta'')] [],
         Tag ''script'' [] [Text ''var csrfToken = "from-script";'']],
      Tag ''form'' []
        [Tag ''input'' [(''type'', ''hidden''), (''name'', ''_token''), (''value'', ''from-hidden'')]
           []]]\<close>

definition script_token_page :: soup where
  \<open>script_token_page =
     [Tag ''head'' []
        [Tag ''script'' [] [Text ''var settings = {}; settings.CSRF_Token = 'abc-123_X'; go();'']],
      Tag ''form'' [] [Tag ''input'' [(''type'', ''hidden''), (''name'', ''_token'')] []]]\<close>

definition token_parser :: "string \<Rightarrow> soup" where
  "token_parser html =
     (if html = ''visible'' then visible_token_page
      else if html = ''hidden'' then hidden_token_page
      else if html = ''script'' then script_token_page
      else [])"

definition token_env :: "request list env" where
  "token_env = fixture_env (\<lambda>rq. Inr (page 200 [] [])) token_parser (\<lambda>s. None)"

subsection \<open>Reading a page\<close>

text \<open>Reading a page for its links, as the harvesting methods do: the links, \<open>None\<close>
  when the answer holds no markup, or the exception of the request or of the reading;
  the state after the request; and what a page adds: its links, or nothing.\<close>

definition read_page :: "'w env \<Rightarrow> api \<Rightarrow> 'w \<Rightarrow> string \<Rightarrow> exn + node list option" where
  "read_page E self w path =
     (case fst (make_request E self w ''GET'' path True []) of
        Inl e \<Rightarrow> Inl e
      | Inr result \<Rightarrow> html_links E result)"

definition after_page :: "'w env \<Rightarrow> api \<Rightarrow> 'w \<Rightarrow> string \<Rightarrow> 'w" where
  "after_page E self w path = snd (make_request E self w ''GET'' path True [])"

definition links_or_none :: "exn + node list option \<Rightarrow> node list" where
  "links_or_none r = (case r of Inr (Some links) \<Rightarrow> links | _ \<Rightarrow> [])"

section \<open>Properties\<close>

subsection \<open>The loop over the input fields\<close>

lemma scan_inputs_done:
  "truthy_str u \<Longrightarrow> truthy_str p \<Longrightarrow> scan_inputs xs (u, p) = (u, p)"
  by (induction xs) auto

lemma find_append_case:
  "List.find P (xs @ ys) = (case List.find P xs of None \<Rightarrow> List.find P ys | Some x \<Rightarrow> Some x)"
  by (induction xs) auto

lemma find_SomeD: "List.find P xs = Some x \<Longrightarrow> P x \<and> x \<in> set xs"
  by (induction xs) (auto split: if_splits)

text \<open>Once the username is known, the password is the first candidate left.\<close>

lemma scan_inputs_password:
  assumes "truthy_str u" "\<not> truthy_str p"
    and "\<forall>x\<in>set xs. is_password_input x \<longrightarrow> truthy_str (attr_get x ''name'')"
  shows "scan_inputs xs (u, p) =
           (u, case List.find is_password_input xs of None \<Rightarrow> p | Some x \<Rightarrow> attr_get x ''name'')"
  using assms by (induction xs) (auto simp: scan_inputs_done)

text \<open>Inputs that are no username candidates can only set the password.\<close>

lemma scan_inputs_skip:
  assumes "\<forall>x\<in>set pre. \<not> is_username_input x" "truthy_str p"
  shows "scan_inputs (pre @ rest) (u, p) = scan_inputs rest (u, p)"
  using assms by (induction pre) auto

lemma scan_inputs_pre:
  assumes "\<forall>x\<in>set pre. \<not> is_username_input x" "\<not> truthy_str p"
    and "\<forall>x\<in>set pre. is_password_input x \<longrightarrow> truthy_str (attr_get x ''name'')"
  shows "scan_inputs (pre @ rest) (u, p) =
           scan_inputs rest
             (u, case List.find is_password_input pre of None \<Rightarrow> p | Some x \<Rightarrow> attr_get x ''name'')"
  using assms by (induction pre) (auto simp: scan_inputs_skip)

lemma scan_inputs_no_password:
  "\<forall>x\<in>set xs. \<not> is_password_input x \<Longrightarrow> snd (scan_inputs xs (u, p)) = p"
  by (induction xs arbitrary: u) auto

lemma no_password_input_raises:
  assumes "\<forall>i\<in>set input_fields.
             lower (attr_get_default i ''type'' []) \<noteq> ''password''
             \<and> lower (attr_get_default i ''name'' []) \<notin> {''password'', ''pass'', ''pwd''}"
  shows "find_login_fields input_fields =
           Inl (SchoolsAPIError (''Cannot find login fields. Found: username=''
                  @ str_of_opt (fst (scan_inputs input_fields (None, None)))
                  @ '', password=None''))"
proof -
  have "\<forall>x\<in>set input_fields. \<not> is_password_input x"
    using assms by (auto simp: is_password_input_def possible_password_names_def)
  then have "snd (scan_inputs input_fields (None, None)) = None"
    by (rule scan_inputs_no_password)
  then show ?thesis
    by (cases "scan_inputs input_fields (None, None)") (simp add: find_login_fields_def)
qed

subsection \<open>C1: the username and password fields\<close>

text \<open>
  C1 as the specification states it: a form with a text or email field for the
  username and a field of type password always yields both names. The code knows a
  username field by its name or by the type email only, so a text field called
  \<open>account\<close> is not found and the inference raises.
\<close>

theorem login_fields_text_field_counterexample:
  "find_login_fields
     [Tag ''input'' [(''type'', ''text''), (''name'', ''account'')] [],
      Tag ''input'' [(''type'', ''password''), (''name'', ''secret'')] []]
   = Inl (SchoolsAPIError ''Cannot find login fields. Found: username=None, password=secret'')"
  by code_simp

text \<open>
  C1, amended: let every input that the code takes for a username or password
  candidate carry a name that is not empty. If \<open>u\<close> is the first input whose name in
  lower case is one of username, login, email, user, login\_name or whose type is
  email, and \<open>p\<close> is the first of the other inputs whose name in lower case is one of
  password, pass, pwd or whose type is password, then the inference succeeds with the
  name of \<open>u\<close> as the username field and the name of \<open>p\<close> as the password field,
  wherever \<open>u\<close> and \<open>p\<close> stand in the form.
\<close>

theorem login_fields_found:
  assumes split: "input_fields = pre @ u # post"
    and first: "\<forall>x\<in>set pre. \<not> is_username_input x" "is_username_input u"
    and pass: "List.find is_password_input (pre @ post) = Some p"
    and named: "\<forall>x\<in>set input_fields.
                  is_username_input x \<or> is_password_input x \<longrightarrow> truthy_str (attr_get x ''name'')"
  shows "find_login_fields input_fields =
           Inr (attr_get_default u ''name'' [], attr_get_default p ''name'' [])"
proof -
  have nu: "truthy_str (attr_get u ''name'')"
    using named first split by simp
  from find_SomeD[OF pass] have pp: "is_password_input p" "p \<in> set pre \<or> p \<in> set post"
    by auto
  then have np: "truthy_str (attr_get p ''name'')"
    using named split by auto
  let ?p1 = "case List.find is_password_input pre of None \<Rightarrow> None | Some x \<Rightarrow> attr_get x ''name''"
  have s1: "scan_inputs input_fields (None, None) = scan_inputs (u # post) (None, ?p1)"
    unfolding split using first named split by (intro scan_inputs_pre) auto
  have s2: "scan_inputs (u # post) (None, ?p1) = scan_inputs post (attr_get u ''name'', ?p1)"
    using first by simp
  have s3: "scan_inputs post (attr_get u ''name'', ?p1) = (attr_get u ''name'', attr_get p ''name'')"
  proof (cases "List.find is_password_input pre")
    case None
    then have "List.find is_password_input post = Some p"
      using pass by (simp add: find_append_case)
    moreover have "scan_inputs post (attr_get u ''name'', None) =
        (attr_get u ''name'',
         case List.find is_password_input post of None \<Rightarrow> None | Some x \<Rightarrow> attr_get x ''name'')"
      using nu named split by (intro scan_inputs_password) auto
    ultimately show ?thesis using None by simp
  next
    case (Some x)
    then have "x = p" using pass by (simp add: find_append_case)
    then show ?thesis using Some np nu by (simp add: scan_inputs_done)
  qed
  obtain un where un: "attr_get u ''name'' = Some un" "un \<noteq> []"
    using nu by (cases "attr_get u ''name''") auto
  obtain pn where pn: "attr_get p ''name'' = Some pn" "pn \<noteq> []"
    using np by (cases "attr_get p ''name''") auto
  have "scan_inputs input_fields (None, None) = (Some un, Some pn)"
    using s1 s2 s3 un pn by simp
  then show ?thesis
    using un pn by (simp add: find_login_fields_def attr_get_default_def)
qed

text \<open>The password field before the username field, after a button without a name.\<close>

theorem login_fields_found_witness:
  "find_login_fields
     [Tag ''input'' [(''type'', ''submit''), (''value'', ''Go'')] [],
      Tag ''input'' [(''type'', ''Password''), (''name'', ''pwd'')] [],
      Tag ''input'' [(''type'', ''text''), (''name'', ''Login'')] []]
   = Inr (''Login'', ''pwd'')"
proof -
  let ?s = "Tag ''input'' [(''type'', ''submit''), (''value'', ''Go'')] []"
  let ?p = "Tag ''input'' [(''type'', ''Password''), (''name'', ''pwd'')] []"
  let ?u = "Tag ''input'' [(''type'', ''text''), (''name'', ''Login'')] []"
  have a: "[?s, ?p, ?u] = [?s, ?p] @ ?u # []" by simp
  have b: "\<forall>x\<in>set [?s, ?p]. \<not> is_username_input x" by code_simp
  have c: "is_username_input ?u" by code_simp
  have d: "List.find is_password_input ([?s, ?p] @ []) = Some ?p" by code_simp
  have e: "\<forall>x\<in>set [?s, ?p, ?u].
             is_username_input x \<or> is_password_input x \<longrightarrow> truthy_str (attr_get x ''name'')"
    by code_simp
  show ?thesis
    using login_fields_found [OF a b c d e] by (simp add: attr_get_default_def)
qed

subsection \<open>C6: a form without a password field\<close>

text \<open>
  C6: when the form holds no input of type password and no input whose name in lower
  case is password, pass or pwd, the inference raises the error that names both
  sides, with \<open>password=None\<close>; \<open>authenticate\<close> then raises it wrapped, in the state
  reached by the GET of the login page: no submission is sent.
\<close>

theorem no_password_field_no_submission:
  assumes nopw: "\<forall>i\<in>set (find_all (contents form) ''input'').
             lower (attr_get_default i ''type'' []) \<noteq> ''password''
             \<and> lower (attr_get_default i ''name'' []) \<notin> {''password'', ''pass'', ''pwd''}"
    and sess: "session self = Some c"
    and g1: "client_request E w c (get_request (build_url E self ''/'')) = (Inr main_response, w1)"
    and g2: "client_request E w1 c (get_request (build_url E self ''/login''))
               = (Inr login_response, w2)"
    and ok: "status_code login_response = 200"
    and form: "find_first (parse_html E (body_text login_response)) ''form'' = Some form"
  shows "find_login_fields (find_all (contents form) ''input'') =
           Inl (SchoolsAPIError (''Cannot find login fields. Found: username=''
                  @ str_of_opt (fst (scan_inputs (find_all (contents form) ''input'') (None, None)))
                  @ '', password=None''))
         \<and> authenticate E self w username password =
           (Inl (SchoolsAPIError (''Authentication failed: Cannot find login fields. Found: username=''
                  @ str_of_opt (fst (scan_inputs (find_all (contents form) ''input'') (None, None)))
                  @ '', password=None'')), w2)"
proof -
  let ?msg = "''Cannot find login fields. Found: username=''
                  @ str_of_opt (fst (scan_inputs (find_all (contents form) ''input'') (None, None)))
                  @ '', password=None''"
  have a: "find_login_fields (find_all (contents form) ''input'') = Inl (SchoolsAPIError ?msg)"
    by (rule no_password_input_raises [OF nopw])
  then have "build_form_data E self (body_text login_response) username password =
          Inl (SchoolsAPIError ?msg)"
    using form by (simp add: build_form_data_def Let_def)
  then have "submit_login E self w username password = (Inl (SchoolsAPIError ?msg), w2)"
    using sess g1 g2 ok by (simp add: submit_login_def)
  then have "authenticate E self w username password =
          (Inl (SchoolsAPIError (''Authentication failed: '' @ ?msg)), w2)"
    by (simp add: authenticate_def)
  with a show ?thesis by simp
qed

text \<open>On the fixture the two GET requests are the only ones sent.\<close>

theorem no_password_field_no_submission_witness:
  "authenticate
     (fixture_env (\<lambda>rq. Inr (page 200 [] ''login page'')) (\<lambda>h. form_without_password) (\<lambda>s. None))
     open_api [] ''u'' ''p''
   = (Inl (SchoolsAPIError
        ''Authentication failed: Cannot find login fields. Found: username=login, password=None''),
      [get_request ''https://schools.by/'', get_request ''https://schools.by/login''])"
proof -
  let ?E = "fixture_env (\<lambda>rq. Inr (page 200 [] ''login page'')) (\<lambda>h. form_without_password)
              (\<lambda>s. None)"
  let ?form = "Tag ''form'' [(''action'', ''/login'')]
        [Tag ''input'' [(''type'', ''text''), (''name'', ''login'')] [],
         Tag ''input'' [(''type'', ''submit'')] []]"
  let ?g1 = "get_request ''https://schools.by/''"
  let ?g2 = "get_request ''https://schools.by/login''"
  have nopw: "\<forall>i\<in>set (find_all (contents ?form) ''input'').
             lower (attr_get_default i ''type'' []) \<noteq> ''password''
             \<and> lower (attr_get_default i ''name'' []) \<notin> {''password'', ''pass'', ''pwd''}"
    by code_simp
  have sess: "session open_api = Some (Client False)"
    by (simp add: open_api_def)
  have g1: "client_request ?E [] (Client False) (get_request (build_url ?E open_api ''/''))
              = (Inr (page 200 [] ''login page''), [?g1])"
    by code_simp
  have g2: "client_request ?E [?g1] (Client False) (get_request (build_url ?E open_api ''/login''))
              = (Inr (page 200 [] ''login page''), [?g1, ?g2])"
    by code_simp
  have ok: "status_code (page 200 [] ''login page'') = 200"
    by (simp add: page_def)
  have form: "find_first (parse_html ?E (body_text (page 200 [] ''login page''))) ''form''
                = Some ?form"
    by (simp add: fixture_env_def form_without_password_def find_first_def)
  have scan: "fst (scan_inputs (find_all (contents ?form) ''input'') (None, None)) = Some ''login''"
    by code_simp
  show ?thesis
    using no_password_field_no_submission [OF nopw sess g1 g2 ok form, of "''u''" "''p''"] scan
    by simp
qed

subsection \<open>The text of an element\<close>

text \<open>The text of a \<open>div\<close> is made of its own strings and those of ordinary tags inside
  it; a script is read by its own text only.\<close>

lemma get_text_leaves_out_scripts:
  "get_text (Tag ''div'' [(''class'', ''error'')]
      [Text ''Bad'', Tag ''script'' [] [Text ''var x;''], Tag ''style'' [] [Text ''p{}''],
       Tag ''template'' [] [Tag ''b'' [] [Text ''t'']], Special Comment ''c'',
       Tag ''b'' [] [Text ''!'']]) = ''Bad!''
   \<and> get_text (Tag ''script'' [] [Text ''var x;'']) = ''var x;''
   \<and> get_text (Tag ''a'' [(''href'', ''/x'')]
         [Special TemplateString ''hidden'', Text ''shown'']) = ''shown''"
  by code_simp

subsection \<open>C3: status 200 after the submission\<close>




subsection \<open>C9: the session life cycle\<close>

text \<open>
  C9 as the specification states it: closing twice, or a request through a closed
  session, fails with the client's own error. In the code \<open>__aexit__\<close> never raises
  and keeps the closed client in \<open>self.session\<close>, so the check of \<open>_make_request\<close>
  lets the request through and the \<open>RuntimeError\<close> of httpx reaches the caller.
\<close>

theorem session_state_errors_counterexample:
  "aenter (init ''https://schools.by'') = Inr open_api
   \<and> aexit open_api = Inr closed_api
   \<and> aexit closed_api = Inr closed_api
   \<and> make_request (fixture_env (\<lambda>rq. Inr (page 200 [] [])) (\<lambda>h. []) (\<lambda>s. None))
         closed_api [] ''GET'' ''/profile'' False []
       = (Inl (RuntimeError ''Cannot send a request, as the client has been closed.''), [])"
  by (simp add: aenter_def aexit_def init_def open_api_def closed_api_def make_request_def
        client_request_def)

text \<open>
  C9, amended: a request through a session that was never opened raises
  SchoolsAPIError (session not initialized) and sends nothing; closing never raises,
  whether it is the first close, a second one or a close without an open; a request
  through a closed session is not stopped by the client, and the \<open>RuntimeError\<close> of
  the closed httpx client is raised as it is.
\<close>

theorem session_state_errors:
  "(session self = None \<longrightarrow>
      make_request E self w method endpoint allow_errors params =
        (Inl (SchoolsAPIError ''Session not initialized. Use async context manager.''), w))
   \<and> (\<exists>self'. aexit self = Inr self' \<and> aexit self' = Inr self'
         \<and> (session self \<noteq> None \<longrightarrow> session self' = Some (Client True)))
   \<and> (session self = Some (Client True) \<longrightarrow>
      make_request E self w method endpoint allow_errors params =
        (Inl (RuntimeError ''Cannot send a request, as the client has been closed.''), w))"
  by (auto simp: make_request_def aexit_def client_request_def split: option.splits)

theorem session_state_errors_witness:
  "make_request (fixture_env (\<lambda>rq. Inr (page 200 [] [])) (\<lambda>h. []) (\<lambda>s. None))
     (init ''https://schools.by'') [] ''GET'' ''/profile'' False []
     = (Inl (SchoolsAPIError ''Session not initialized. Use async context manager.''), [])
   \<and> make_request (fixture_env (\<lambda>rq. Inr (page 200 [] [])) (\<lambda>h. []) (\<lambda>s. None))
       closed_api [] ''GET'' ''/profile'' False []
     = (Inl (RuntimeError ''Cannot send a request, as the client has been closed.''), [])"
proof -
  have a: "session (init ''https://schools.by'') = None" by (simp add: init_def)
  have b: "session closed_api = Some (Client True)" by (simp add: closed_api_def)
  show ?thesis
    using session_state_errors [of "init ''https://schools.by''"
            "fixture_env (\<lambda>rq. Inr (page 200 [] [])) (\<lambda>h. []) (\<lambda>s. None)" "[]"
            "''GET''" "''/profile''" False "[]"]
      session_state_errors [of closed_api
            "fixture_env (\<lambda>rq. Inr (page 200 [] [])) (\<lambda>h. []) (\<lambda>s. None)" "[]"
            "''GET''" "''/profile''" False "[]"] a b
    by simp
qed

subsection \<open>The two loops of the extraction\<close>

lemma spec_first_parse_Cons:
  "spec_first_parse loads (c # cs) =
     (case loads c of None \<Rightarrow> spec_first_parse loads cs | Some j \<Rightarrow> Some j)"
  by (simp add: spec_first_parse_def List.map_filter_simps split: option.splits)

lemma spec_first_parse_Nil: "spec_first_parse loads [] = None"
  by (simp add: spec_first_parse_def List.map_filter_simps)

lemma spec_first_parse_append:
  "spec_first_parse loads (xs @ ys) =
     (case spec_first_parse loads xs of None \<Rightarrow> spec_first_parse loads ys | Some j \<Rightarrow> Some j)"
  by (induction xs) (auto simp: spec_first_parse_Cons spec_first_parse_Nil split: option.splits)

lemma scan_lines_spec:
  "scan_lines loads lines =
     spec_first_parse loads
       (map (\<lambda>line. slice line (find_char CHR ''{'' line) (rfind_char_end CHR ''}'' line))
         (filter (\<lambda>line. (str_in ''data'' (lower line) \<or> str_in ''config'' (lower line))
                        \<and> CHR ''{'' \<in> set line \<and> CHR ''}'' \<in> set line) lines))"
  by (induction lines) (auto simp: spec_first_parse_Cons spec_first_parse_Nil split: option.splits)

lemma scan_scripts_spec:
  "scan_scripts loads scripts =
     spec_first_parse loads
       (concat (map spec_candidates
          (filter (\<lambda>c. str_in ''window.'' c \<or> str_in ''var '' c)
             (List.map_filter
                (\<lambda>script. case node_string script of
                    None \<Rightarrow> None
                  | Some s \<Rightarrow> if s = [] then None else Some (strip s)) scripts))))"
proof (induction scripts)
  case Nil
  then show ?case by (simp add: spec_first_parse_Nil List.map_filter_simps)
next
  case (Cons script scripts)
  show ?case
  proof (cases "node_string script")
    case None
    then show ?thesis using Cons by (simp add: List.map_filter_simps)
  next
    case (Some s)
    then show ?thesis
      using Cons
      by (auto simp: List.map_filter_simps Let_def spec_first_parse_append scan_lines_spec
            spec_candidates_def split: option.splits)
  qed
qed

lemma var_config_candidates:
  \<open>concat (map spec_candidates
      (filter (\<lambda>c. str_in ''window.'' c \<or> str_in ''var '' c)
         (List.map_filter
            (\<lambda>script. case node_string script of
                None \<Rightarrow> None
              | Some s \<Rightarrow> if s = [] then None else Some (strip s))
            [Tag ''script'' [] [Text ''var config = {"a": 1};'']])))
    = [''{"a": 1}'']\<close>
  by code_simp

lemma var_x_candidates:
  \<open>concat (map spec_candidates
      (filter (\<lambda>c. str_in ''window.'' c \<or> str_in ''var '' c)
         (List.map_filter
            (\<lambda>script. case node_string script of
                None \<Rightarrow> None
              | Some s \<Rightarrow> if s = [] then None else Some (strip s))
            [Tag ''script'' [] [Text ''var x = 5;'']])))
    = []\<close>
  by code_simp

text \<open>\<open>_make_request\<close> on a response with status 200 that is not declared as JSON.\<close>

lemma handle_response_html:
  assumes "status_code r = 200"
    and "\<not> str_in ''application/json'' (headers_get (headers r) ''Content-Type'' [])"
  shows "handle_response E r allow_errors =
           (let json_data = extract_json_from_html E (body_text r) in
            if truthy json_data then
              (case py_in ''html'' json_data of
                 Inl e \<Rightarrow> Inl e
               | Inr b \<Rightarrow>
                   if \<not> b then Inr json_data
                   else Inr (JObj [(''html'', JStr (body_text r)), (''status'', JInt 200)]))
            else Inr (JObj [(''html'', JStr (body_text r)), (''status'', JInt 200)]))"
  using assms by (auto simp: handle_response_def Let_def split: sum.splits)

subsection \<open>C5: JSON found in the scripts of a page\<close>

text \<open>
  C5 as the specification states it: every inline script is scanned for candidate
  lines. The code scans a script only when its stripped text contains \<open>window.\<close> or
  \<open>var\<close> followed by a space: in a script that declares the object with \<open>const\<close>, the
  candidate line parses, and still the extraction returns the wrapped markup.
\<close>

theorem extract_json_gated_counterexample:
  \<open>spec_first_parse config_json
      (concat (map spec_candidates (script_texts (script_parser ''const''))))
     = Some (JObj [(''a'', JInt 1)])
   \<and> extract_json_from_html
        (fixture_env (\<lambda>rq. Inr (page 200 [] ''const'')) script_parser config_json) ''const''
     = JObj [(''html'', JStr ''const'')]\<close>
  by code_simp

text \<open>
  C5, amended: among the inline scripts whose stripped text contains \<open>window.\<close> or
  \<open>var\<close> followed by a space, the extraction takes the lines that contain data or
  config in any case and both braces, of each the text from the first opening to the
  last closing brace, skips those that do not parse and returns the first parse;
  without one it returns the markup wrapped under the key html. A page whose only
  script is \<open>var config = {"a": 1};\<close> gives the payload with \<open>a\<close> set to 1, also as
  the result of the request; a page whose only script is \<open>var x = 5;\<close> gives no
  extraction, and the request returns the raw markup with its status.
\<close>

theorem extract_json_gated:
  \<open>extract_json_from_html E html =
     (case spec_first_parse (json_loads E)
             (concat (map spec_candidates
                (filter (\<lambda>c. str_in ''window.'' c \<or> str_in ''var '' c)
                   (script_texts (parse_html E html))))) of
        Some j \<Rightarrow> j
      | None \<Rightarrow> JObj [(''html'', JStr html)])
   \<and> (find_all (parse_html E html) ''script'' = [Tag ''script'' [] [Text ''var config = {"a": 1};'']]
        \<and> json_loads E ''{"a": 1}'' = Some (JObj [(''a'', JInt 1)]) \<longrightarrow>
      extract_json_from_html E html = JObj [(''a'', JInt 1)]
      \<and> (\<forall>(r::response) allow_errors.
            status_code r = 200 \<and> body_text r = html
            \<and> \<not> str_in ''application/json'' (headers_get (headers r) ''Content-Type'' []) \<longrightarrow>
            handle_response E r allow_errors = Inr (JObj [(''a'', JInt 1)])))
   \<and> (find_all (parse_html E html) ''script'' = [Tag ''script'' [] [Text ''var x = 5;'']] \<longrightarrow>
      extract_json_from_html E html = JObj [(''html'', JStr html)]
      \<and> (\<forall>(r::response) allow_errors.
            status_code r = 200 \<and> body_text r = html
            \<and> \<not> str_in ''application/json'' (headers_get (headers r) ''Content-Type'' []) \<longrightarrow>
            handle_response E r allow_errors
              = Inr (JObj [(''html'', JStr html), (''status'', JInt 200)])))\<close>
proof (intro conjI impI allI)
  show \<open>extract_json_from_html E html =
     (case spec_first_parse (json_loads E)
             (concat (map spec_candidates
                (filter (\<lambda>c. str_in ''window.'' c \<or> str_in ''var '' c)
                   (script_texts (parse_html E html))))) of
        Some j \<Rightarrow> j
      | None \<Rightarrow> JObj [(''html'', JStr html)])\<close>
    by (simp add: extract_json_from_html_def scan_scripts_spec script_texts_def)
next
  assume h: \<open>find_all (parse_html E html) ''script'' = [Tag ''script'' [] [Text ''var config = {"a": 1};'']]
        \<and> json_loads E ''{"a": 1}'' = Some (JObj [(''a'', JInt 1)])\<close>
  have \<open>scan_scripts (json_loads E) [Tag ''script'' [] [Text ''var config = {"a": 1};'']]
          = spec_first_parse (json_loads E) [''{"a": 1}'']\<close>
    by (simp only: scan_scripts_spec var_config_candidates)
  then show a: \<open>extract_json_from_html E html = JObj [(''a'', JInt 1)]\<close>
    using h by (simp add: extract_json_from_html_def spec_first_parse_Cons)
  fix r :: response and allow_errors
  assume \<open>status_code r = 200 \<and> body_text r = html
            \<and> \<not> str_in ''application/json'' (headers_get (headers r) ''Content-Type'' [])\<close>
  then show \<open>handle_response E r allow_errors = Inr (JObj [(''a'', JInt 1)])\<close>
    using a by (simp add: handle_response_html)
next
  assume h: \<open>find_all (parse_html E html) ''script'' = [Tag ''script'' [] [Text ''var x = 5;'']]\<close>
  have \<open>scan_scripts (json_loads E) [Tag ''script'' [] [Text ''var x = 5;'']]
          = spec_first_parse (json_loads E) []\<close>
    by (simp only: scan_scripts_spec var_x_candidates)
  then show a: \<open>extract_json_from_html E html = JObj [(''html'', JStr html)]\<close>
    using h by (simp add: extract_json_from_html_def spec_first_parse_Nil)
  fix r :: response and allow_errors
  assume \<open>status_code r = 200 \<and> body_text r = html
            \<and> \<not> str_in ''application/json'' (headers_get (headers r) ''Content-Type'' [])\<close>
  then show \<open>handle_response E r allow_errors
              = Inr (JObj [(''html'', JStr html), (''status'', JInt 200)])\<close>
    using a by (simp add: handle_response_html)
qed

theorem extract_json_gated_witness:
  \<open>handle_response (fixture_env (\<lambda>rq. Inr (page 200 [] ''var'')) script_parser config_json)
      (page 200 [(''Content-Type'', ''text/html'')] ''var'') False
     = Inr (JObj [(''a'', JInt 1)])
   \<and> handle_response (fixture_env (\<lambda>rq. Inr (page 200 [] ''x5'')) script_parser config_json)
      (page 200 [(''Content-Type'', ''text/html'')] ''x5'') False
     = Inr (JObj [(''html'', JStr ''x5''), (''status'', JInt 200)])\<close>
proof -
  let ?E = \<open>fixture_env (\<lambda>rq. Inr (page 200 [] ''var'')) script_parser config_json\<close>
  let ?F = \<open>fixture_env (\<lambda>rq. Inr (page 200 [] ''x5'')) script_parser config_json\<close>
  let ?r = \<open>page 200 [(''Content-Type'', ''text/html'')] ''var''\<close>
  let ?q = \<open>page 200 [(''Content-Type'', ''text/html'')] ''x5''\<close>
  have e1: \<open>find_all (parse_html ?E ''var'') ''script''
              = [Tag ''script'' [] [Text ''var config = {"a": 1};'']]
            \<and> json_loads ?E ''{"a": 1}'' = Some (JObj [(''a'', JInt 1)])\<close>
    by code_simp
  have e2: \<open>find_all (parse_html ?F ''x5'') ''script'' = [Tag ''script'' [] [Text ''var x = 5;'']]\<close>
    by code_simp
  have r1: \<open>status_code ?r = 200 \<and> body_text ?r = ''var''
            \<and> \<not> str_in ''application/json'' (headers_get (headers ?r) ''Content-Type'' [])\<close>
    by code_simp
  have r2: \<open>status_code ?q = 200 \<and> body_text ?q = ''x5''
            \<and> \<not> str_in ''application/json'' (headers_get (headers ?q) ''Content-Type'' [])\<close>
    by code_simp
  show ?thesis
    using extract_json_gated [of ?E \<open>''var''\<close>] extract_json_gated [of ?F \<open>''x5''\<close>] e1 e2 r1 r2
    by blast
qed

subsection \<open>C10: an extracted mapping with the key html\<close>

text \<open>
  C10: on a response with status 200 that is not declared as JSON, a mapping found by
  the extraction that holds the key html is dropped and the request returns the raw
  markup with status 200; whatever else the request returns is the extracted value
  and holds no key html.
\<close>

theorem html_key_never_structured:
  assumes sess: "session self = Some c"
    and rq: "client_request E w c
               \<lparr>rq_method = method, rq_url = build_url E self endpoint, rq_params = params,
                rq_data = [], rq_headers = []\<rparr> = (Inr r, w')"
    and st: "status_code r = 200"
    and ct: "\<not> str_in ''application/json'' (headers_get (headers r) ''Content-Type'' [])"
  shows "(\<forall>d. extract_json_from_html E (body_text r) = JObj d \<and> ''html'' \<in> fst ` set d \<longrightarrow>
            make_request E self w method endpoint allow_errors params
              = (Inr (JObj [(''html'', JStr (body_text r)), (''status'', JInt 200)]), w'))
       \<and> (\<forall>j. fst (make_request E self w method endpoint allow_errors params) = Inr j \<longrightarrow>
            j = JObj [(''html'', JStr (body_text r)), (''status'', JInt 200)]
            \<or> (j = extract_json_from_html E (body_text r) \<and> py_in ''html'' j = Inr False))"
proof -
  have m: "make_request E self w method endpoint allow_errors params
             = (handle_response E r allow_errors, w')"
    using sess rq by (simp add: make_request_def)
  show ?thesis
    unfolding m handle_response_html [OF st ct]
    by (auto simp: Let_def split: sum.splits)
qed

theorem html_key_never_structured_witness:
  \<open>make_request
      (fixture_env (\<lambda>rq. Inr (page 200 [(''Content-Type'', ''text/html'')] ''html''))
         script_parser config_json)
      open_api [] ''GET'' ''/schedule'' False []
     = (Inr (JObj [(''html'', JStr ''html''), (''status'', JInt 200)]),
        [\<lparr>rq_method = ''GET'', rq_url = ''https://schools.by/schedule'', rq_params = [],
          rq_data = [], rq_headers = []\<rparr>])\<close>
proof -
  let ?r = \<open>page 200 [(''Content-Type'', ''text/html'')] ''html''\<close>
  let ?E = \<open>fixture_env (\<lambda>rq. Inr ?r) script_parser config_json\<close>
  let ?rq = \<open>\<lparr>rq_method = ''GET'', rq_url = ''https://schools.by/schedule'', rq_params = [],
          rq_data = [], rq_headers = []\<rparr>\<close>
  have sess: \<open>session open_api = Some (Client False)\<close> by (simp add: open_api_def)
  have rq: \<open>client_request ?E [] (Client False)
               \<lparr>rq_method = ''GET'', rq_url = build_url ?E open_api ''/schedule'', rq_params = [],
                rq_data = [], rq_headers = []\<rparr> = (Inr ?r, [?rq])\<close>
    by code_simp
  have st: \<open>status_code ?r = 200\<close> by (simp add: page_def)
  have ct: \<open>\<not> str_in ''application/json'' (headers_get (headers ?r) ''Content-Type'' [])\<close>
    by code_simp
  have ex: \<open>extract_json_from_html ?E (body_text ?r) = JObj [(''html'', JStr ''x'')]
            \<and> ''html'' \<in> fst ` set [(''html'', JStr ''x'')]\<close>
    by code_simp
  have bt: \<open>body_text ?r = ''html''\<close> by (simp add: page_def)
  show ?thesis
    using html_key_never_structured [OF sess rq st ct, of False] ex bt by auto
qed

subsection \<open>The harvesting methods\<close>

text \<open>Both methods end in a handler that returns a list.\<close>

lemma get_subdomains_page_returns:
  "\<exists>schools. fst (get_subdomains_page E self w) = Inr schools"
  by (auto simp: get_subdomains_page_def split: prod.splits sum.splits)

lemma search_schools_returns:
  "\<exists>schools. fst (search_schools E self w query) = Inr schools"
  by (auto simp: search_schools_def split: prod.splits sum.splits)

text \<open>The loop that removes duplicates keeps, of every URL, the first entry.\<close>

lemma remdups_append_mem:
  "x \<in> set bs \<Longrightarrow> remdups (as @ x # bs) = remdups (as @ bs)"
  by (induction as) auto

lemma unique_loop_urls:
  "distinct (map school_url acc) \<Longrightarrow>
   map school_url (unique_loop xs (set (map school_url acc)) acc) =
     rev (remdups (rev (map school_url acc @ map school_url xs)))"
proof (induction xs arbitrary: acc)
  case Nil
  then show ?case by (simp add: distinct_remdups_id)
next
  case (Cons x xs)
  show ?case
  proof (cases "school_url x \<in> set (map school_url acc)")
    case True
    then have "remdups (rev (map school_url xs) @ school_url x # rev (map school_url acc))
                 = remdups (rev (map school_url xs) @ rev (map school_url acc))"
      by (intro remdups_append_mem) simp
    then show ?thesis using True Cons by simp
  next
    case False
    have "unique_loop (x # xs) (set (map school_url acc)) acc
            = unique_loop xs (set (map school_url (acc @ [x]))) (acc @ [x])"
      using False by simp
    moreover have "distinct (map school_url (acc @ [x]))"
      using False Cons.prems by simp
    ultimately show ?thesis
      using Cons.IH [of "acc @ [x]"] by simp
  qed
qed

lemma unique_loop_first:
  "s \<in> set (unique_loop xs seen acc) \<Longrightarrow>
   s \<in> set acc \<or> (List.find (\<lambda>t. school_url t = school_url s) xs = Some s \<and> school_url s \<notin> seen)"
proof (induction xs arbitrary: seen acc)
  case Nil
  then show ?case by simp
next
  case (Cons x xs)
  show ?case
  proof (cases "school_url x \<in> seen")
    case True
    then have "s \<in> set (unique_loop xs seen acc)" using Cons.prems by simp
    from Cons.IH [OF this] True show ?thesis by auto
  next
    case False
    then have "s \<in> set (unique_loop xs (insert (school_url x) seen) (acc @ [x]))"
      using Cons.prems by simp
    from Cons.IH [OF this] False show ?thesis by auto
  qed
qed

text \<open>The handler of \<open>search_schools\<close> can only run while \<open>schools\<close> is still empty, so the
  result is always the list without duplicates, cut at 15.\<close>

lemma search_schools_result:
  "fst (search_schools E self w query) =
     Inr (take 15 (unique_loop (harvested E self w query) {} []))"
proof -
  have "\<And>w1. \<exists>r. fst (get_subdomains_page E self w1) = Inr r"
    by (rule get_subdomains_page_returns)
  then have "\<And>w1 e w2. get_subdomains_page E self w1 \<noteq> (Inl e, w2)"
    by (metis fst_conv sum.distinct(1))
  then show ?thesis
    by (auto simp: search_schools_def harvested_def search_schools_try_def Let_def
             split: prod.splits sum.splits option.splits)
qed

subsection \<open>C8: the result of search\_schools\<close>

text \<open>
  C8: the list returned by \<open>search_schools\<close> holds no URL twice and at most 15
  entries; its URLs are the URLs harvested from all sources in the order of their
  first occurrence, cut at 15; and each entry is the first one harvested with its URL.
\<close>

theorem search_result_unique_capped:
  assumes "fst (search_schools E self w query) = Inr result"
  shows "distinct (map school_url result)
       \<and> length result \<le> 15
       \<and> map school_url result =
           take 15 (rev (remdups (rev (map school_url (harvested E self w query)))))
       \<and> (\<forall>s\<in>set result.
             List.find (\<lambda>t. school_url t = school_url s) (harvested E self w query) = Some s)"
proof -
  let ?h = "harvested E self w query"
  have r: "result = take 15 (unique_loop ?h {} [])"
    using assms by (simp add: search_schools_result)
  have u: "map school_url (unique_loop ?h {} []) = rev (remdups (rev (map school_url ?h)))"
    using unique_loop_urls [of "[]" ?h] by simp
  have a: "map school_url result = take 15 (rev (remdups (rev (map school_url ?h))))"
    by (metis r u take_map)
  then have b: "distinct (map school_url result)"
    by (simp add: distinct_take)
  have c: "length result \<le> 15" by (simp add: r)
  have d: "\<forall>s\<in>set result. List.find (\<lambda>t. school_url t = school_url s) ?h = Some s"
  proof
    fix s assume "s \<in> set result"
    then have "s \<in> set (unique_loop ?h {} [])"
      unfolding r by (rule in_set_takeD)
    from unique_loop_first [OF this] show "List.find (\<lambda>t. school_url t = school_url s) ?h = Some s"
      by simp
  qed
  from a b c d show ?thesis by blast
qed

text \<open>Six links harvested from three pages, three different URLs among them.\<close>

theorem search_result_unique_capped_witness:
  "fst (search_schools harvest_env open_api [] ''minsk'') = Inr minsk_schools
   \<and> map school_url (harvested harvest_env open_api [] ''minsk'')
       = [''https://sch1.schools.by'', ''https://sch1.schools.by'', ''https://sch3.schools.by'',
          ''https://sch1.schools.by'', ''https://sch4.schools.by'', ''https://sch3.schools.by'']
   \<and> distinct (map school_url minsk_schools)
   \<and> map (\<lambda>s. List.find (\<lambda>t. school_url t = school_url s)
                 (harvested harvest_env open_api [] ''minsk'')) minsk_schools
       = map Some minsk_schools"
proof -
  have r: "fst (search_schools harvest_env open_api [] ''minsk'') = Inr minsk_schools"
    by code_simp
  have h: "map school_url (harvested harvest_env open_api [] ''minsk'')
       = [''https://sch1.schools.by'', ''https://sch1.schools.by'', ''https://sch3.schools.by'',
          ''https://sch1.schools.by'', ''https://sch4.schools.by'', ''https://sch3.schools.by'']"
    by code_simp
  have "\<forall>s\<in>set minsk_schools.
          List.find (\<lambda>t. school_url t = school_url s) (harvested harvest_env open_api [] ''minsk'')
            = Some s"
    using search_result_unique_capped [OF r] by blast
  then have f: "map (\<lambda>s. List.find (\<lambda>t. school_url t = school_url s)
                 (harvested harvest_env open_api [] ''minsk'')) minsk_schools
       = map Some minsk_schools"
    by (intro map_cong) auto
  show ?thesis
    using search_result_unique_capped [OF r] r h f by blast
qed

subsection \<open>The loop over the elements that may hold the token\<close>

lemma first_token_element:
  "first_token (found # rest) =
     (if element_token found \<noteq> None then element_token found else first_token rest)"
  by (cases found) (auto simp: element_token_def Let_def)

text \<open>The second regular expression is never needed here: the first one finds the
  token of a script that assigns it to a property.\<close>

lemma csrf_token_from_script:
  "get_csrf_token token_env ''script'' = Some ''abc-123_X''"
  by code_simp

subsection \<open>C4: the priority of the token sources\<close>

text \<open>
  C4 as the specification states it: the inputs that count are the hidden ones. The
  code looks an input up by its name alone, so a visible input named \<open>_token\<close> wins
  over a hidden input named \<open>csrf_token\<close>, which the stated order would return.
\<close>

theorem csrf_token_priority_counterexample:
  "spec_csrf_token (parse_html token_env ''visible'') = Some ''from-hidden''
   \<and> get_csrf_token token_env ''visible'' = Some ''from-visible''"
  by code_simp

text \<open>
  C4, amended: the discovery returns the first token in this order: from the first
  input named csrfmiddlewaretoken, from the first input named \_token, from the first
  input named csrf\_token, from the first meta tag named csrf-token, each input of
  whatever type and each element giving its value attribute, or its content attribute
  when the value is absent or empty; then the token matched in a script. When no
  input named csrfmiddlewaretoken gives a token and the first input named \_token
  has a value that is not empty, that value is returned, whatever the meta tag holds.
\<close>

theorem csrf_token_priority:
  "get_csrf_token E html =
     (let doc = parse_html E html;
          i1 = element_token (find_first_attr doc ''input'' ''name'' ''csrfmiddlewaretoken'');
          i2 = element_token (find_first_attr doc ''input'' ''name'' ''_token'');
          i3 = element_token (find_first_attr doc ''input'' ''name'' ''csrf_token'');
          m = element_token (find_first_attr doc ''meta'' ''name'' ''csrf-token'')
      in if i1 \<noteq> None then i1
         else if i2 \<noteq> None then i2
         else if i3 \<noteq> None then i3
         else if m \<noteq> None then m
         else script_token (find_all doc ''script''))
   \<and> (\<forall>inp v.
         element_token (find_first_attr (parse_html E html) ''input'' ''name'' ''csrfmiddlewaretoken'')
           = None
         \<and> find_first_attr (parse_html E html) ''input'' ''name'' ''_token'' = Some inp
         \<and> attr_get inp ''value'' = Some v \<and> v \<noteq> [] \<longrightarrow>
         get_csrf_token E html = Some v)"
proof -
  have a: "get_csrf_token E html =
     (let doc = parse_html E html;
          i1 = element_token (find_first_attr doc ''input'' ''name'' ''csrfmiddlewaretoken'');
          i2 = element_token (find_first_attr doc ''input'' ''name'' ''_token'');
          i3 = element_token (find_first_attr doc ''input'' ''name'' ''csrf_token'');
          m = element_token (find_first_attr doc ''meta'' ''name'' ''csrf-token'')
      in if i1 \<noteq> None then i1
         else if i2 \<noteq> None then i2
         else if i3 \<noteq> None then i3
         else if m \<noteq> None then m
         else script_token (find_all doc ''script''))"
    unfolding get_csrf_token_def Let_def first_token_element
    by (auto split: option.splits)
  have b: "element_token (Some inp) = Some v" if "attr_get inp ''value'' = Some v" "v \<noteq> []"
    for inp v using that by (simp add: element_token_def)
  show ?thesis
    using a b by (auto simp: Let_def)
qed

text \<open>A hidden input named \_token beside a meta tag and a script with other values.\<close>

theorem csrf_token_priority_witness:
  "get_csrf_token token_env ''hidden'' = Some ''from-hidden''"
proof -
  let ?inp = "Tag ''input'' [(''type'', ''hidden''), (''name'', ''_token''), (''value'', ''from-hidden'')] []"
  have h: "element_token (find_first_attr (parse_html token_env ''hidden'') ''input'' ''name''
              ''csrfmiddlewaretoken'') = None
         \<and> find_first_attr (parse_html token_env ''hidden'') ''input'' ''name'' ''_token'' = Some ?inp
         \<and> attr_get ?inp ''value'' = Some ''from-hidden'' \<and> ''from-hidden'' \<noteq> []"
    by code_simp
  show ?thesis
    using csrf_token_priority [of token_env "''hidden''"] h by blast
qed

subsection \<open>The harvesting methods, page by page\<close>

text \<open>A test page, and the page of the subdomains, add the links read from them, and
  nothing when the request or the reading raises.\<close>

lemma test_page_read:
  "test_page E self w query path =
     (test_page_links query path (links_or_none (read_page E self w path)),
      after_page E self w path)"
  by (auto simp: test_page_def read_page_def after_page_def links_or_none_def
        test_page_links_def split: prod.splits sum.splits option.splits)

lemma get_subdomains_page_read:
  "get_subdomains_page E self w =
     (Inr (subdomain_links (links_or_none (read_page E self w ''/subdomains''))),
      after_page E self w ''/subdomains'')"
  by (auto simp: get_subdomains_page_def get_subdomains_page_try_def read_page_def
        after_page_def links_or_none_def subdomain_links_def
        split: prod.splits sum.splits option.splits)

text \<open>The result of \<open>search_schools\<close> from the five pages it reads.\<close>

lemma search_schools_read:
  "fst (search_schools E self w query) = Inr
     (case read_page E self w ''/'' of
        Inl e \<Rightarrow> []
      | Inr main \<Rightarrow>
          (let w1 = after_page E self w ''/'';
               w2 = after_page E self w1 ''/subdomains'';
               w3 = after_page E self w2 ''/capabilities'';
               w4 = after_page E self w3 ''/help''
           in take 15 (unique_loop
                (main_page_links query (case main of None \<Rightarrow> [] | Some links \<Rightarrow> links)
                 @ filter (\<lambda>school. str_in (lower query) (lower (school_name school)))
                     (subdomain_links (links_or_none (read_page E self w1 ''/subdomains'')))
                 @ test_page_links query ''/capabilities''
                     (links_or_none (read_page E self w2 ''/capabilities''))
                 @ test_page_links query ''/help'' (links_or_none (read_page E self w3 ''/help''))
                 @ test_page_links query ''/about'' (links_or_none (read_page E self w4 ''/about'')))
                {} [])))"
proof (cases "make_request E self w ''GET'' ''/'' True []")
  case (Pair res w1)
  show ?thesis
  proof (cases res)
    case (Inl e)
    then show ?thesis using Pair
      by (simp add: search_schools_def search_schools_try_def read_page_def)
  next
    case (Inr main_page)
    show ?thesis
    proof (cases "html_links E main_page")
      case (Inl e)
      then show ?thesis using Pair Inr
        by (simp add: search_schools_def search_schools_try_def read_page_def)
    next
      case r: (Inr links)
      have w1: "after_page E self w ''/'' = w1"
        using Pair by (simp add: after_page_def)
      have m: "read_page E self w ''/'' = Inr links"
        using Pair Inr r by (simp add: read_page_def)
      have e: "(case links of None \<Rightarrow> [] | Some ls \<Rightarrow> main_page_links query ls)
                 = main_page_links query (case links of None \<Rightarrow> [] | Some ls \<Rightarrow> ls)"
        by (simp add: main_page_links_def split: option.splits)
      show ?thesis
        using Pair Inr r
        by (simp add: search_schools_def search_schools_try_def get_subdomains_page_read
              test_page_read Let_def m w1 e)
    qed
  qed
qed

subsection \<open>C7: harvesting never raises\<close>

text \<open>
  C7: for every query, every state of the session and every behaviour of the
  transport, the parser and the decoder, \<open>search_schools\<close> and \<open>get_subdomains_page\<close>
  return a list and never raise. \<open>get_subdomains_page\<close> returns the links read from
  its page, the empty list when the request or the reading raises. \<open>search_schools\<close>
  returns the empty list when the main page cannot be read; otherwise it returns what
  the main page, the page of the subdomains and the three test pages add, in this
  order, without duplicates and cut at 15, where a page whose request or reading
  raises adds nothing and every other page still adds its links.
\<close>

theorem harvesting_never_raises:
  "(\<exists>schools. fst (search_schools E self w query) = Inr schools)
   \<and> (\<exists>schools. fst (get_subdomains_page E self w) = Inr schools)
   \<and> fst (get_subdomains_page E self w)
       = Inr (subdomain_links (links_or_none (read_page E self w ''/subdomains'')))
   \<and> fst (search_schools E self w query) = Inr
     (case read_page E self w ''/'' of
        Inl e \<Rightarrow> []
      | Inr main \<Rightarrow>
          (let w1 = after_page E self w ''/'';
               w2 = after_page E self w1 ''/subdomains'';
               w3 = after_page E self w2 ''/capabilities'';
               w4 = after_page E self w3 ''/help''
           in take 15 (unique_loop
                (main_page_links query (case main of None \<Rightarrow> [] | Some links \<Rightarrow> links)
                 @ filter (\<lambda>school. str_in (lower query) (lower (school_name school)))
                     (subdomain_links (links_or_none (read_page E self w1 ''/subdomains'')))
                 @ test_page_links query ''/capabilities''
                     (links_or_none (read_page E self w2 ''/capabilities''))
                 @ test_page_links query ''/help'' (links_or_none (read_page E self w3 ''/help''))
                 @ test_page_links query ''/about'' (links_or_none (read_page E self w4 ''/about'')))
                {} [])))"
  using search_schools_read [of E self w query]
  by (simp add: get_subdomains_page_read)

text \<open>On the fixture two of the test pages fail and the three schools of the other
  pages are returned; a closed session makes every request raise.\<close>

theorem harvesting_never_raises_witness:
  "fst (search_schools harvest_env open_api [] ''minsk'') = Inr minsk_schools
   \<and> read_page harvest_env open_api
         [get_request ''https://schools.by/'', get_request ''https://schools.by/subdomains'']
         ''/capabilities'' = Inl (RuntimeError ''boom'')
   \<and> fst (get_subdomains_page harvest_env closed_api []) = Inr []
   \<and> fst (search_schools harvest_env closed_api [] ''minsk'') = Inr []"
proof -
  have a: "Inr
     (case read_page harvest_env open_api [] ''/'' of
        Inl e \<Rightarrow> []
      | Inr main \<Rightarrow>
          (let w1 = after_page harvest_env open_api [] ''/'';
               w2 = after_page harvest_env open_api w1 ''/subdomains'';
               w3 = after_page harvest_env open_api w2 ''/capabilities'';
               w4 = after_page harvest_env open_api w3 ''/help''
           in take 15 (unique_loop
                (main_page_links ''minsk'' (case main of None \<Rightarrow> [] | Some links \<Rightarrow> links)
                 @ filter (\<lambda>school. str_in (lower ''minsk'') (lower (school_name school)))
                     (subdomain_links (links_or_none (read_page harvest_env open_api w1 ''/subdomains'')))
                 @ test_page_links ''minsk'' ''/capabilities''
                     (links_or_none (read_page harvest_env open_api w2 ''/capabilities''))
                 @ test_page_links ''minsk'' ''/help''
                     (links_or_none (read_page harvest_env open_api w3 ''/help''))
                 @ test_page_links ''minsk'' ''/about''
                     (links_or_none (read_page harvest_env open_api w4 ''/about'')))
                {} []))) = (Inr minsk_schools :: exn + school list)"
    by code_simp
  have b: "read_page harvest_env open_api
         [get_request ''https://schools.by/'', get_request ''https://schools.by/subdomains'']
         ''/capabilities'' = Inl (RuntimeError ''boom'')"
    by code_simp
  have c: "subdomain_links (links_or_none (read_page harvest_env closed_api [] ''/subdomains'')) = []"
    by code_simp
  have d: "read_page harvest_env closed_api [] ''/''
             = Inl (RuntimeError ''Cannot send a request, as the client has been closed.'')"
    by code_simp
  show ?thesis
    using harvesting_never_raises [of harvest_env open_api "[]" "''minsk''"]
      harvesting_never_raises [of harvest_env closed_api "[]" "''minsk''"] a b c d
    by simp
qed

subsection \<open>Redirects are followed before authenticate sees them\<close>

text \<open>What the client returns is never a redirect with a Location header.\<close>

lemma send_following_final:
  "send_following E n w rq = (Inr r, w') \<Longrightarrow> \<not> has_redirect_location r"
  by (induction n arbitrary: w rq) (auto split: prod.splits sum.splits if_splits)

lemma submit_login_final:
  "submit_login E self w username password = (Inr r, w') \<Longrightarrow> \<not> has_redirect_location r"
  by (auto simp: submit_login_def client_request_def
        split: option.splits prod.splits sum.splits if_splits dest: send_following_final)

lemma lower_location: "lower ''Location'' = ''location''"
  by code_simp

text \<open>A response of status 302, 303 or 307 that reaches the classification carries no
  Location header, and its outcome is success with an empty redirect target.\<close>

lemma redirect_without_location:
  assumes "\<not> has_redirect_location r" "status_code r \<in> {302, 303, 307}"
  shows "classify_response E r w =
           Success ''Authentication successful (redirected)'' (status_code r) (Some [])
             (cookie_jar E w)"
proof -
  have "map_of (map (\<lambda>(n, v). (lower n, v)) (headers r)) ''location'' = None"
    using assms by (auto simp: has_redirect_location_def)
  then have "headers_get (headers r) ''Location'' [] = []"
    by (simp add: headers_get_def lower_location)
  moreover have "status_code r \<noteq> 200" using assms by auto
  ultimately show ?thesis
    using assms by (simp add: classify_response_def Let_def lower_def)
qed

text \<open>So the failure of the redirect branch is returned for no input.\<close>

lemma redirect_failure_unreachable:
  "fst (authenticate E self w username password)
     \<noteq> Inr (Failure ''Authentication failed (redirected back to login)'' code excerpt)"
proof (cases "submit_login E self w username password")
  case (Pair res w')
  show ?thesis
  proof (cases res)
    case (Inl e)
    then show ?thesis using Pair by (simp add: authenticate_def)
  next
    case (Inr r)
    then have "submit_login E self w username password = (Inr r, w')"
      using Pair by simp
    then have nr: "\<not> has_redirect_location r"
      by (rule submit_login_final)
    show ?thesis
    proof (cases "status_code r \<in> {302, 303, 307}")
      case True
      then show ?thesis
        using Pair Inr redirect_without_location [OF nr True, of E w']
        by (simp add: authenticate_def)
    next
      case False
      then show ?thesis
        using Pair Inr by (auto simp: authenticate_def classify_response_def Let_def)
    qed
  qed
qed

subsection \<open>C2: a redirect after the submission\<close>

text \<open>
  C2 says that a submission answered with status 302, 303 or 307 is classified by its
  Location header: success, with the target recorded, unless the header contains
  \<open>/login\<close>, and then the failure \<open>redirected back to login\<close>. The branch of
  \<open>authenticate\<close> that does this is never reached with such a header, since the client
  follows the redirect first. On the fixture the submission is answered with 302 and
  Location \<open>/login?error=1\<close>: the client fetches that page, which shows the login form
  and no error element, and \<open>authenticate\<close> returns success with status 200 and no
  redirect target, where C2 demands the failure. With Location \<open>/dashboard\<close> the
  outcome is success, but without the target that C2 wants recorded.
\<close>

theorem redirect_followed_before_classification:
  "fst (authenticate
          (fixture_env (login_server (page 302 [(''Location'', ''/login?error=1'')] []))
             (login_parser []) (\<lambda>s. None))
          open_api [] ''u'' ''p'')
     = Inr (Success ''Authentication successful'' 200 None [(''sessionid'', ''s1'')])
   \<and> map (\<lambda>rq. (rq_method rq, rq_url rq))
         (snd (authenticate
                 (fixture_env (login_server (page 302 [(''Location'', ''/login?error=1'')] []))
                    (login_parser []) (\<lambda>s. None))
                 open_api [] ''u'' ''p''))
     = [(''GET'', ''https://schools.by/''), (''GET'', ''https://schools.by/login''),
        (''POST'', ''https://schools.by/login''), (''GET'', ''https://schools.by/login?error=1'')]
   \<and> fst (authenticate
          (fixture_env (login_server (page 302 [(''Location'', ''/dashboard'')] []))
             (login_parser []) (\<lambda>s. None))
          open_api [] ''u'' ''p'')
     = Inr (Success ''Authentication successful'' 200 None [(''sessionid'', ''s1'')])"
  by code_simp

end
